theory Spec2Isabelle
  imports Complex_Main "HOL-Library.Word" "HOL-Library.Multiset"
begin

section \<open>The FEMB0 diagnostic tool (sw/femb0.py)\<close>

text \<open>
  A shallow embedding of \<^verbatim>\<open>src/sw/femb0.py\<close>: the three data views
  (\<^verbatim>\<open>Hist2DView\<close>, \<^verbatim>\<open>MeanRMSView\<close>, \<^verbatim>\<open>FFTView\<close>) and the
  window \<^verbatim>\<open>FEMB0Diagnostics\<close> with its actions.

  Conventions of the embedding.
  \<^item> A numpy array is a (nested) list in C order; \<^verbatim>\<open>uint16\<close> and \<^verbatim>\<open>uint64\<close>
    elements are machine words.
  \<^item> numpy's \<^verbatim>\<open>float64\<close> results are idealised as real numbers, with the one
    non-number the code can produce (\<^verbatim>\<open>nan\<close>, the mean of no values) kept apart.
  \<^item> A Python exception is a value of type \<open>error\<close>; a method that mutates its
    object returns the outcome of the call together with the object as the call
    left it, so that what was assigned before an exception is still assigned.
  \<^item> The matplotlib canvas of a view is reduced to the data handed to the last
    plotting call and the number of \<^verbatim>\<open>canvas.draw()\<close> calls.
  \<^item> Console output of the window is a list of messages; the diagnostic
    \<^verbatim>\<open>print(samples.shape)\<close> inside \<^verbatim>\<open>FFTView.load_data\<close> is not recorded.
\<close>

subsection \<open>Values and errors\<close>

type_synonym u8 = "8 word"
type_synonym u16 = "16 word"
type_synonym u64 = "64 word"

datatype error =
    ValueError | IndexError | KeyError | TypeError | ZeroDivisionError
  | FileNotFoundError | JSONDecodeError | ZMQError

datatype outcome = Returned | Raised error

datatype f64 = Finite real | NaN

subsection \<open>The numpy operations the program calls\<close>

text \<open>Little-endian value of a group of bytes (the platforms the tool runs on).\<close>

fun le_nat :: "u8 list \<Rightarrow> nat" where
  "le_nat [] = 0"
| "le_nat (b # bs) = unat b + 256 * le_nat bs"

text \<open>\<^verbatim>\<open>np.frombuffer(buf, dtype)\<close> for an unsigned dtype of \<open>k\<close> bytes: the buffer size
  must be a multiple of the element size.\<close>

definition np_frombuffer :: "nat \<Rightarrow> u8 list \<Rightarrow> error + nat list" where
  "np_frombuffer k buf =
     (if length buf mod k \<noteq> 0 then Inl ValueError
      else Inr (map (\<lambda>i. le_nat (take k (drop (k * i) buf))) [0..<length buf div k]))"

definition frombuffer_uint16 :: "u8 list \<Rightarrow> error + u16 list" where
  "frombuffer_uint16 buf = map_sum id (map of_nat) (np_frombuffer 2 buf)"

definition frombuffer_uint64 :: "u8 list \<Rightarrow> error + u64 list" where
  "frombuffer_uint64 buf = map_sum id (map of_nat) (np_frombuffer 8 buf)"

text \<open>\<^verbatim>\<open>a.reshape((d0, d1, d2))\<close> and \<^verbatim>\<open>a.reshape((d0, d1))\<close> of a flat array.\<close>

definition reshape3 :: "nat \<Rightarrow> nat \<Rightarrow> nat \<Rightarrow> 'a list \<Rightarrow> error + 'a list list list" where
  "reshape3 d0 d1 d2 a =
     (if length a \<noteq> d0 * d1 * d2 then Inl ValueError
      else Inr (map (\<lambda>i. map (\<lambda>j. map (\<lambda>k. a ! ((i * d1 + j) * d2 + k)) [0..<d2]) [0..<d1])
                  [0..<d0]))"

definition reshape2 :: "nat \<Rightarrow> nat \<Rightarrow> 'a list \<Rightarrow> error + 'a list list" where
  "reshape2 d0 d1 a =
     (if length a \<noteq> d0 * d1 then Inl ValueError
      else Inr (map (\<lambda>i. map (\<lambda>k. a ! (i * d1 + k)) [0..<d1]) [0..<d0]))"

text \<open>\<^verbatim>\<open>np.mean\<close> and \<^verbatim>\<open>np.std\<close> (population standard deviation, \<^verbatim>\<open>ddof=0\<close>) of one
  row; of an empty row both are \<^verbatim>\<open>nan\<close>.\<close>

definition mean_real :: "real list \<Rightarrow> real" where
  "mean_real xs = sum_list xs / real (length xs)"

definition np_mean :: "u16 list \<Rightarrow> f64" where
  "np_mean row = (if row = [] then NaN else Finite (mean_real (map (\<lambda>v. real (unat v)) row)))"

definition np_std :: "u16 list \<Rightarrow> f64" where
  "np_std row =
     (if row = [] then NaN
      else let xs = map (\<lambda>v. real (unat v)) row; m = mean_real xs
           in Finite (sqrt (mean_real (map (\<lambda>x. (x - m)\<^sup>2) xs))))"

text \<open>\<^verbatim>\<open>np.histogram(a, bins=edges)\<close> with an increasing array of bin edges: bin \<open>b\<close>
  is the half-open interval from edge \<open>b\<close> to edge \<open>b + 1\<close>, but for the last bin, which
  is closed on the right too. Values outside the edges are not counted. Only the counts
  are returned, as the program discards the edges.\<close>

definition in_bin :: "int list \<Rightarrow> nat \<Rightarrow> int \<Rightarrow> bool" where
  "in_bin edges b v =
     (edges ! b \<le> v \<and>
      (if b + 2 = length edges then v \<le> edges ! (b + 1) else v < edges ! (b + 1)))"

definition np_histogram :: "int list \<Rightarrow> int list \<Rightarrow> nat list" where
  "np_histogram a edges =
     map (\<lambda>b. length (filter (in_bin edges b) a)) [0..<length edges - 1]"

text \<open>\<^verbatim>\<open>np.fft.fftfreq(n, d)\<close> for \<open>n > 0\<close> (for \<open>n = 0\<close> it raises, see \<open>FFTView_load_data\<close>).\<close>

definition np_fftfreq :: "nat \<Rightarrow> real \<Rightarrow> real list" where
  "np_fftfreq n d =
     (let val = 1 / (real n * d); N = (n - 1) div 2 + 1
      in map (\<lambda>k. real_of_int k * val) (map int [0..<N] @ [- int (n div 2)..- 1]))"

text \<open>\<^verbatim>\<open>np.argsort\<close>: the indices in the order that sorts the array.\<close>

definition np_argsort :: "real list \<Rightarrow> nat list" where
  "np_argsort a = sort_key (\<lambda>i. a ! i) [0..<length a]"

text \<open>Indexing an array with an array of indices, \<^verbatim>\<open>a[idx]\<close>.\<close>

definition take_idx :: "'a list \<Rightarrow> nat list \<Rightarrow> error + 'a list" where
  "take_idx a idx =
     (if list_all (\<lambda>i. i < length a) idx then Inr (map (\<lambda>i. a ! i) idx) else Inl IndexError)"

text \<open>\<^verbatim>\<open>np.fft.fft\<close>: the discrete Fourier transform of one row; \<open>dft row k\<close> is
  its bin \<open>k\<close>.\<close>

definition dft :: "u16 list \<Rightarrow> nat \<Rightarrow> complex" where
  "dft row k =
     (\<Sum>t\<leftarrow>[0..<length row]. complex_of_real (real (unat (row ! t))) *
                               cis (- (2 * pi * real k * real t / real (length row))))"

definition np_fft :: "u16 list \<Rightarrow> error + complex list" where
  "np_fft row =
     (if length row = 0 then Inl ValueError else Inr (map (dft row) [0..<length row]))"

subsection \<open>The data views\<close>

text \<open>Every view sets \<^verbatim>\<open>self.chan = np.arange(128)\<close> in its constructor and never
  assigns it again; the histogram view likewise sets its bin edges
  \<^verbatim>\<open>self.samples = np.arange(16385)\<close>. The spectrum view uses the sample interval
  \<^verbatim>\<open>320e-9\<close>.\<close>

definition chan :: "nat list" where
  "chan = [0..<128]"

definition Hist2DView_samples :: "int list" where
  "Hist2DView_samples = map int [0..<16385]"

definition sample_interval :: real where
  "sample_interval = 320 / 10 ^ 9"

record Hist2DView =
  counts :: "nat list list"
  hist_plotted :: "nat list list option"
  hist_draws :: nat

record MeanRMSView =
  rms :: "f64 list"
  mean :: "f64 list"
  meanrms_plotted :: "(f64 list \<times> f64 list) option"
  meanrms_draws :: nat

record FFTView =
  freq :: "real list"
  fft :: "real list list"
  fft_plotted :: "(real list \<times> real list list) option"
  fft_draws :: nat

text \<open>\<^verbatim>\<open>np.argsort(freq)[len(freq)//2::]\<close>\<close>

definition upper_half_idx :: "real list \<Rightarrow> nat list" where
  "upper_half_idx fr = drop (length fr div 2) (np_argsort fr)"

text \<open>The constructors; \<^verbatim>\<open>DataView.__init__\<close> draws the empty canvas once.\<close>

definition Hist2DView_init :: Hist2DView where
  "Hist2DView_init =
     \<lparr>counts = replicate 16385 (replicate 128 0), hist_plotted = None, hist_draws = 1\<rparr>"

definition MeanRMSView_init :: MeanRMSView where
  "MeanRMSView_init =
     \<lparr>rms = replicate 128 (Finite 0), mean = replicate 128 (Finite 0),
      meanrms_plotted = None, meanrms_draws = 1\<rparr>"

definition FFTView_init :: FFTView where
  "FFTView_init =
     (let fr = np_fftfreq 2184 sample_interval;
          f = map (\<lambda>i. fr ! i) (upper_half_idx fr)
      in \<lparr>freq = f, fft = replicate (length f) (replicate 128 1),
          fft_plotted = None, fft_draws = 1\<rparr>)"

text \<open>\<^verbatim>\<open>Hist2DView.load_data\<close>: the loop \<^verbatim>\<open>for i in self.chan\<close> appends one histogram
  per channel; \<^verbatim>\<open>samples[i]\<close> raises when the array has no row \<open>i\<close>.\<close>

fun Hist2DView_fill :: "u16 list list \<Rightarrow> nat list \<Rightarrow> Hist2DView \<Rightarrow> outcome \<times> Hist2DView" where
  "Hist2DView_fill s0 [] v = (Returned, v)"
| "Hist2DView_fill s0 (i # is) v =
     (if i < length s0
      then Hist2DView_fill s0 is
             (v\<lparr>counts := counts v @ [np_histogram (map uint (s0 ! i)) Hist2DView_samples]\<rparr>)
      else (Raised IndexError, v))"

definition Hist2DView_load_data ::
  "u64 list list \<Rightarrow> u16 list list list \<Rightarrow> Hist2DView \<Rightarrow> outcome \<times> Hist2DView" where
  "Hist2DView_load_data timestamps samples v =
     (case samples of
        [] \<Rightarrow> (Raised IndexError, v)
      | s0 # _ \<Rightarrow> Hist2DView_fill s0 chan (v\<lparr>counts := []\<rparr>))"

definition Hist2DView_plot_data :: "Hist2DView \<Rightarrow> Hist2DView" where
  "Hist2DView_plot_data v =
     v\<lparr>hist_plotted := Some (counts v), hist_draws := hist_draws v + 1\<rparr>"

text \<open>\<^verbatim>\<open>MeanRMSView.load_data\<close>: \<^verbatim>\<open>np.std(samples, axis=1)\<close>, then
  \<^verbatim>\<open>np.mean(samples, axis=1)\<close>, on sub-unit 0.\<close>

definition MeanRMSView_load_data ::
  "u64 list list \<Rightarrow> u16 list list list \<Rightarrow> MeanRMSView \<Rightarrow> outcome \<times> MeanRMSView" where
  "MeanRMSView_load_data timestamps samples v =
     (case samples of
        [] \<Rightarrow> (Raised IndexError, v)
      | s0 # _ \<Rightarrow> (Returned, v\<lparr>rms := map np_std s0, mean := map np_mean s0\<rparr>))"

definition MeanRMSView_plot_data :: "MeanRMSView \<Rightarrow> MeanRMSView" where
  "MeanRMSView_plot_data v =
     v\<lparr>meanrms_plotted := Some (mean v, rms v), meanrms_draws := meanrms_draws v + 1\<rparr>"

text \<open>\<^verbatim>\<open>FFTView.load_data\<close>: the frequency axis is computed from the length of the
  first row; \<^verbatim>\<open>fftfreq\<close> divides by \<open>n * d\<close> and raises for \<open>n = 0\<close>. The loop appends,
  per channel, the squared magnitudes of the selected transform bins.\<close>

fun FFTView_fill :: "u16 list list \<Rightarrow> nat list \<Rightarrow> nat list \<Rightarrow> FFTView \<Rightarrow> outcome \<times> FFTView" where
  "FFTView_fill s0 freq_idx [] v = (Returned, v)"
| "FFTView_fill s0 freq_idx (i # is) v =
     (if i < length s0
      then (case np_fft (s0 ! i) of
              Inl e \<Rightarrow> (Raised e, v)
            | Inr X \<Rightarrow>
                (case take_idx X freq_idx of
                   Inl e \<Rightarrow> (Raised e, v)
                 | Inr sel \<Rightarrow>
                     FFTView_fill s0 freq_idx is
                       (v\<lparr>fft := fft v @ [map (\<lambda>z. (cmod z)\<^sup>2) sel]\<rparr>)))
      else (Raised IndexError, v))"

definition FFTView_load_data ::
  "u64 list list \<Rightarrow> u16 list list list \<Rightarrow> FFTView \<Rightarrow> outcome \<times> FFTView" where
  "FFTView_load_data timestamps samples v =
     (case samples of
        [] \<Rightarrow> (Raised IndexError, v)
      | s0 # _ \<Rightarrow>
          (case s0 of
             [] \<Rightarrow> (Raised IndexError, v)
           | r0 # _ \<Rightarrow>
               if length r0 = 0 then (Raised ZeroDivisionError, v)
               else let fr = np_fftfreq (length r0) sample_interval;
                        freq_idx = upper_half_idx fr
                    in (case take_idx fr freq_idx of
                          Inl e \<Rightarrow> (Raised e, v)
                        | Inr f \<Rightarrow> FFTView_fill s0 freq_idx chan (v\<lparr>freq := f, fft := []\<rparr>))))"

definition FFTView_plot_data :: "FFTView \<Rightarrow> FFTView" where
  "FFTView_plot_data v =
     v\<lparr>fft_plotted := Some (freq v, fft v), fft_draws := fft_draws v + 1\<rparr>"

text \<open>The window holds a list of views and calls them through the methods of
  \<^verbatim>\<open>DataView\<close>.\<close>

datatype view = VHist Hist2DView | VMeanRMS MeanRMSView | VFFT FFTView

fun load_data :: "u64 list list \<Rightarrow> u16 list list list \<Rightarrow> view \<Rightarrow> outcome \<times> view" where
  "load_data ts s (VHist v) = map_prod id VHist (Hist2DView_load_data ts s v)"
| "load_data ts s (VMeanRMS v) = map_prod id VMeanRMS (MeanRMSView_load_data ts s v)"
| "load_data ts s (VFFT v) = map_prod id VFFT (FFTView_load_data ts s v)"

fun plot_data :: "view \<Rightarrow> view" where
  "plot_data (VHist v) = VHist (Hist2DView_plot_data v)"
| "plot_data (VMeanRMS v) = VMeanRMS (MeanRMSView_plot_data v)"
| "plot_data (VFFT v) = VFFT (FFTView_plot_data v)"

fun draws :: "view \<Rightarrow> nat" where
  "draws (VHist v) = hist_draws v"
| "draws (VMeanRMS v) = meanrms_draws v"
| "draws (VFFT v) = fft_draws v"

subsection \<open>Messages of the wire schema (wib\_pb2) and the configuration file\<close>

text \<open>A value loaded by \<^verbatim>\<open>json.load\<close>; a dictionary is the list of its items.\<close>

datatype pyval =
    PNone | PBool bool | PInt int | PFloat real | PStr string
  | PList "pyval list" | PDict "(string \<times> pyval) list"

text \<open>\<^verbatim>\<open>v[key]\<close> with a string key and \<^verbatim>\<open>v[i]\<close> with a number of \<^verbatim>\<open>range(4)\<close>.\<close>

fun getitem_str :: "pyval \<Rightarrow> string \<Rightarrow> error + pyval" where
  "getitem_str (PDict kvs) key =
     (case map_of kvs key of None \<Rightarrow> Inl KeyError | Some v \<Rightarrow> Inr v)"
| "getitem_str v key = Inl TypeError"

fun getitem_int :: "pyval \<Rightarrow> nat \<Rightarrow> error + pyval" where
  "getitem_int (PList xs) i = (if i < length xs then Inr (xs ! i) else Inl IndexError)"
| "getitem_int (PStr s) i = (if i < length s then Inr (PStr [s ! i]) else Inl IndexError)"
| "getitem_int (PDict kvs) i = Inl KeyError"
| "getitem_int v i = Inl TypeError"

definition bind_err :: "error + 'a \<Rightarrow> ('a \<Rightarrow> error + 'b) \<Rightarrow> error + 'b" where
  "bind_err m f = (case m of Inl e \<Rightarrow> Inl e | Inr x \<Rightarrow> f x)"

text \<open>The generated module \<^verbatim>\<open>wib_pb2\<close> is not part of the sources. Assigning a value to
  a field of a message checks it against the field's declared type; that check is the
  parameter \<open>chk\<close> below: \<open>chk field v\<close> is the exception raised when \<open>v\<close> is
  assigned to \<open>field\<close>, or \<open>None\<close> when the value is stored.\<close>

type_synonym schema = "string \<Rightarrow> pyval \<Rightarrow> error option"

definition set_field :: "schema \<Rightarrow> string \<Rightarrow> pyval \<Rightarrow> error + pyval" where
  "set_field chk field v = (case chk field v of Some e \<Rightarrow> Inl e | None \<Rightarrow> Inr v)"

record ConfigureFEMB =
  enabled :: pyval
  test_cap :: pyval
  gain :: pyval
  peak_time :: pyval
  baseline :: pyval
  pulse_dac :: pyval
  leak :: pyval
  leak_10x :: pyval
  ac_couple :: pyval
  buffer :: pyval
  strobe_skip :: pyval
  strobe_delay :: pyval
  strobe_length :: pyval

record ConfigureWIB =
  cold :: pyval
  fembs :: "ConfigureFEMB list"

record ReadDaqSpy =
  buf0 :: bool
  buf1 :: bool
  deframe :: bool
  channels :: bool

datatype request = ReqConfigureWIB ConfigureWIB | ReqReadDaqSpy ReadDaqSpy | ReqPulser bool

record DeframedDaqSpy =
  success :: bool
  num_samples :: nat
  deframed_samples :: "u8 list"
  deframed_timestamps :: "u8 list"

record Status =
  status_success :: bool

subsection \<open>The window\<close>

text \<open>A \<^verbatim>\<open>QTimer\<close>: whether it runs, its period in milliseconds, and whether it fires
  once only (it does not, unless \<^verbatim>\<open>setSingleShot\<close> is called, which the program never
  does).\<close>

record QTimer =
  active :: bool
  interval :: nat
  single_shot :: bool

datatype message =
    ReadingOutSpyBuffer | Successful bool | AcquiredSamples nat
  | StartingContinuous | LoadingConfig | FailedToLoadConfig error
  | ConfiguringFEMBs | SendingConfigureWIB | StartingPulser | StoppingPulser

record FEMB0Diagnostics =
  sent :: "request list"
  views :: "view list"
  pulser_button :: string
  continuious_button :: string
  timer :: QTimer
  samples :: "u16 list list list option"
  timestamps :: "u64 list list option"
  stdout :: "message list"

definition print :: "message \<Rightarrow> FEMB0Diagnostics \<Rightarrow> FEMB0Diagnostics" where
  "print m w = w\<lparr>stdout := stdout w @ [m]\<rparr>"

text \<open>\<^verbatim>\<open>plot\<close>: every view redraws.\<close>

definition plot :: "FEMB0Diagnostics \<Rightarrow> FEMB0Diagnostics" where
  "plot w = w\<lparr>views := map plot_data (views w)\<rparr>"

text \<open>\<^verbatim>\<open>__init__\<close>: the socket has sent nothing, the buttons carry their first labels,
  the timer is created stopped, and the attributes \<^verbatim>\<open>samples\<close> and \<^verbatim>\<open>timestamps\<close>
  do not exist yet.\<close>

definition FEMB0Diagnostics_init :: FEMB0Diagnostics where
  "FEMB0Diagnostics_init =
     plot \<lparr>sent = [],
           views = [VHist Hist2DView_init, VMeanRMS MeanRMSView_init, VFFT FFTView_init],
           pulser_button = ''Enable Pulser'',
           continuious_button = ''Continuous'',
           timer = \<lparr>active = False, interval = 0, single_shot = False\<rparr>,
           samples = None, timestamps = None, stdout = []\<rparr>"

text \<open>\<^verbatim>\<open>send_command\<close>: the request is packed and sent, then the reply is received and
  parsed. The second argument is what the socket and the parser give back: the reply, or
  the exception they raise.\<close>

definition send_command ::
  "request \<Rightarrow> error + 'rep \<Rightarrow> FEMB0Diagnostics \<Rightarrow> FEMB0Diagnostics \<times> (error + 'rep)" where
  "send_command req answer w = (w\<lparr>sent := sent w @ [req]\<rparr>, answer)"

text \<open>\<^verbatim>\<open>toggle_continuous\<close>: \<^verbatim>\<open>timer.start(500)\<close> sets the period and starts the
  timer, \<^verbatim>\<open>timer.stop()\<close> stops it.\<close>

definition toggle_continuous :: "FEMB0Diagnostics \<Rightarrow> FEMB0Diagnostics" where
  "toggle_continuous w =
     (if continuious_button w = ''Continuous''
      then let w1 = print StartingContinuous (w\<lparr>continuious_button := ''Stop''\<rparr>)
           in w1\<lparr>timer := (timer w1)\<lparr>interval := 500, active := True\<rparr>\<rparr>
      else let w1 = w\<lparr>continuious_button := ''Continuous''\<rparr>
           in w1\<lparr>timer := (timer w1)\<lparr>active := False\<rparr>\<rparr>)"

text \<open>\<^verbatim>\<open>toggle_pulser\<close>: the reply is received and not looked at.\<close>

definition toggle_pulser ::
  "error + Status \<Rightarrow> FEMB0Diagnostics \<Rightarrow> outcome \<times> FEMB0Diagnostics" where
  "toggle_pulser answer w =
     (let (start, w1) =
            (if pulser_button w = ''Enable Pulser''
             then (True, print StartingPulser (w\<lparr>pulser_button := ''Disable Pulser''\<rparr>))
             else (False, print StoppingPulser (w\<lparr>pulser_button := ''Enable Pulser''\<rparr>)))
      in case send_command (ReqPulser start) answer w1 of
           (w2, Inl e) \<Rightarrow> (Raised e, w2)
         | (w2, Inr rep) \<Rightarrow> (Returned, w2))"

text \<open>The loop \<^verbatim>\<open>for view in self.views: view.load_data(...)\<close>: an exception leaves
  the views before it loaded and the views after it untouched.\<close>

fun load_views :: "u64 list list \<Rightarrow> u16 list list list \<Rightarrow> view list \<Rightarrow> outcome \<times> view list" where
  "load_views ts s [] = (Returned, [])"
| "load_views ts s (v # vs) =
     (case load_data ts s v of
        (Raised e, v') \<Rightarrow> (Raised e, v' # vs)
      | (Returned, v') \<Rightarrow> (case load_views ts s vs of (r, vs') \<Rightarrow> (r, v' # vs')))"

text \<open>\<^verbatim>\<open>acquire_data\<close>\<close>

definition acquire_data ::
  "error + DeframedDaqSpy \<Rightarrow> FEMB0Diagnostics \<Rightarrow> outcome \<times> FEMB0Diagnostics" where
  "acquire_data answer w =
     (let w1 = print ReadingOutSpyBuffer w;
          req = \<lparr>buf0 = True, buf1 = False, deframe = True, channels = True\<rparr>
      in case send_command (ReqReadDaqSpy req) answer w1 of
           (w2, Inl e) \<Rightarrow> (Raised e, w2)
         | (w2, Inr rep) \<Rightarrow>
             let w3 = print (Successful (success rep)) w2;
                 num = num_samples rep;
                 w4 = print (AcquiredSamples num) w3
             in case bind_err (frombuffer_uint16 (deframed_samples rep)) (reshape3 4 128 num) of
                  Inl e \<Rightarrow> (Raised e, w4)
                | Inr s \<Rightarrow>
                    let w5 = w4\<lparr>samples := Some s\<rparr>
                    in case bind_err (frombuffer_uint64 (deframed_timestamps rep)) (reshape2 2 num) of
                         Inl e \<Rightarrow> (Raised e, w5)
                       | Inr ts \<Rightarrow>
                           let w6 = w5\<lparr>timestamps := Some ts\<rparr>
                           in case load_views ts s (views w6) of
                                (Raised e, vs) \<Rightarrow> (Raised e, w6\<lparr>views := vs\<rparr>)
                              | (Returned, vs) \<Rightarrow> (Returned, plot (w6\<lparr>views := vs\<rparr>)))"

text \<open>\<^verbatim>\<open>configure_wib\<close>: the body of the loop over \<^verbatim>\<open>range(4)\<close> fills one record of
  \<^verbatim>\<open>req.fembs\<close>, field by field in the order of the source.\<close>

definition field_from :: "schema \<Rightarrow> pyval \<Rightarrow> string \<Rightarrow> error + pyval" where
  "field_from chk fconfig name = bind_err (getitem_str fconfig name) (set_field chk name)"

definition femb_conf :: "schema \<Rightarrow> pyval \<Rightarrow> nat \<Rightarrow> error + ConfigureFEMB" where
  "femb_conf chk config i =
     bind_err (bind_err (bind_err (getitem_str config ''enabled_fembs'') (\<lambda>l. getitem_int l i))
                 (set_field chk ''enabled'')) (\<lambda>v_enabled.
     bind_err (bind_err (getitem_str config ''femb_configs'') (\<lambda>l. getitem_int l i)) (\<lambda>fconfig.
     bind_err (field_from chk fconfig ''test_cap'') (\<lambda>v_test_cap.
     bind_err (field_from chk fconfig ''gain'') (\<lambda>v_gain.
     bind_err (field_from chk fconfig ''peak_time'') (\<lambda>v_peak_time.
     bind_err (field_from chk fconfig ''baseline'') (\<lambda>v_baseline.
     bind_err (field_from chk fconfig ''pulse_dac'') (\<lambda>v_pulse_dac.
     bind_err (field_from chk fconfig ''leak'') (\<lambda>v_leak.
     bind_err (field_from chk fconfig ''leak_10x'') (\<lambda>v_leak_10x.
     bind_err (field_from chk fconfig ''ac_couple'') (\<lambda>v_ac_couple.
     bind_err (field_from chk fconfig ''buffer'') (\<lambda>v_buffer.
     bind_err (field_from chk fconfig ''strobe_skip'') (\<lambda>v_strobe_skip.
     bind_err (field_from chk fconfig ''strobe_delay'') (\<lambda>v_strobe_delay.
     bind_err (field_from chk fconfig ''strobe_length'') (\<lambda>v_strobe_length.
       Inr \<lparr>enabled = v_enabled, test_cap = v_test_cap, gain = v_gain,
            peak_time = v_peak_time, baseline = v_baseline, pulse_dac = v_pulse_dac,
            leak = v_leak, leak_10x = v_leak_10x, ac_couple = v_ac_couple,
            buffer = v_buffer, strobe_skip = v_strobe_skip,
            strobe_delay = v_strobe_delay, strobe_length = v_strobe_length\<rparr>))))))))))))))"

fun add_fembs :: "schema \<Rightarrow> pyval \<Rightarrow> nat list \<Rightarrow> ConfigureWIB \<Rightarrow> error + ConfigureWIB" where
  "add_fembs chk config [] req = Inr req"
| "add_fembs chk config (i # is) req =
     bind_err (femb_conf chk config i)
       (\<lambda>f. add_fembs chk config is (req\<lparr>fembs := fembs req @ [f]\<rparr>))"

definition build_ConfigureWIB :: "schema \<Rightarrow> pyval \<Rightarrow> error + ConfigureWIB" where
  "build_ConfigureWIB chk config =
     bind_err (bind_err (getitem_str config ''cold'') (set_field chk ''cold''))
       (\<lambda>v_cold. add_fembs chk config [0..<4] \<lparr>cold = v_cold, fembs = []\<rparr>)"

text \<open>The first argument of \<open>configure_wib\<close> is what \<^verbatim>\<open>open\<close> and \<^verbatim>\<open>json.load\<close>
  give for the configuration file: the loaded value, or the exception that the
  \<^verbatim>\<open>try\<close> block catches.\<close>

definition configure_wib ::
  "schema \<Rightarrow> error + pyval \<Rightarrow> error + Status \<Rightarrow> FEMB0Diagnostics \<Rightarrow> outcome \<times> FEMB0Diagnostics" where
  "configure_wib chk file answer w =
     (let w1 = print LoadingConfig w
      in case file of
           Inl e \<Rightarrow> (Returned, print (FailedToLoadConfig e) w1)
         | Inr config \<Rightarrow>
             let w2 = print ConfiguringFEMBs w1
             in case build_ConfigureWIB chk config of
                  Inl e \<Rightarrow> (Raised e, w2)
                | Inr req \<Rightarrow>
                    let w3 = print SendingConfigureWIB w2
                    in case send_command (ReqConfigureWIB req) answer w3 of
                         (w4, Inl e) \<Rightarrow> (Raised e, w4)
                       | (w4, Inr rep) \<Rightarrow> (Returned, print (Successful (status_success rep)) w4))"

subsection \<open>Predicates used in the statements\<close>

text \<open>An array of shape \<open>(d0, d1, d2)\<close>.\<close>

definition shape3 :: "'a list list list \<Rightarrow> nat \<Rightarrow> nat \<Rightarrow> nat \<Rightarrow> bool" where
  "shape3 a d0 d1 d2 =
     (length a = d0 \<and> list_all (\<lambda>p. length p = d1 \<and> list_all (\<lambda>r. length r = d2) p) a)"

text \<open>The histogram as the specification words it, to compare with the program's:
  16384 bins of equal width over the 16-bit range, so each bin is four values wide.\<close>

definition spec_bin16 :: "nat \<Rightarrow> u16 \<Rightarrow> bool" where
  "spec_bin16 b x = (4 * b \<le> unat x \<and> unat x < 4 * (b + 1))"

definition spec_hist16 :: "u16 list \<Rightarrow> nat list" where
  "spec_hist16 row = map (\<lambda>b. length (filter (spec_bin16 b) row)) [0..<16384]"

text \<open>The two states of the continuous mode, read off the timer; the label the button
  shows in each; and the window being coherent: the label is that of the state, the
  timer is a recurring one, and a running timer has the period of 500 ms.\<close>

datatype mode = Idle | ContinuousPolling

definition mode_of :: "FEMB0Diagnostics \<Rightarrow> mode" where
  "mode_of w = (if active (timer w) then ContinuousPolling else Idle)"

fun label_of :: "mode \<Rightarrow> string" where
  "label_of Idle = ''Continuous''"
| "label_of ContinuousPolling = ''Stop''"

fun other_mode :: "mode \<Rightarrow> mode" where
  "other_mode Idle = ContinuousPolling"
| "other_mode ContinuousPolling = Idle"

definition coherent :: "FEMB0Diagnostics \<Rightarrow> bool" where
  "coherent w =
     (continuious_button w = label_of (mode_of w) \<and>
      \<not> single_shot (timer w) \<and>
      (if active (timer w) then interval (timer w) = 500 else True))"

text \<open>The entries of a configuration object that the Configure action reads:
  \<^verbatim>\<open>config['enabled_fembs'][i]\<close> and \<^verbatim>\<open>config['femb_configs'][i][name]\<close>.\<close>

definition config_enabled :: "pyval \<Rightarrow> nat \<Rightarrow> error + pyval" where
  "config_enabled config i = bind_err (getitem_str config ''enabled_fembs'') (\<lambda>l. getitem_int l i)"

definition config_femb_field :: "pyval \<Rightarrow> nat \<Rightarrow> string \<Rightarrow> error + pyval" where
  "config_femb_field config i name =
     bind_err (bind_err (getitem_str config ''femb_configs'') (\<lambda>l. getitem_int l i))
       (\<lambda>fconfig. getitem_str fconfig name)"

text \<open>A well-formed configuration object: a dictionary with a boolean \<^verbatim>\<open>cold\<close>, four
  \<^verbatim>\<open>enabled_fembs\<close> and four \<^verbatim>\<open>femb_configs\<close>, each of these a dictionary that has
  every tuning field; and every value is one the wire schema stores.\<close>

definition tuning_fields :: "string list" where
  "tuning_fields =
     [''test_cap'', ''gain'', ''peak_time'', ''baseline'', ''pulse_dac'', ''leak'',
      ''leak_10x'', ''ac_couple'', ''buffer'', ''strobe_skip'', ''strobe_delay'',
      ''strobe_length'']"

definition well_formed_femb :: "schema \<Rightarrow> pyval \<Rightarrow> bool" where
  "well_formed_femb chk fconfig =
     (case fconfig of
        PDict kvs \<Rightarrow>
          list_all (\<lambda>name. case map_of kvs name of
                              Some v \<Rightarrow> chk name v = None
                            | None \<Rightarrow> False) tuning_fields
      | _ \<Rightarrow> False)"

definition well_formed_config :: "schema \<Rightarrow> pyval \<Rightarrow> bool" where
  "well_formed_config chk config =
     (case config of
        PDict kvs \<Rightarrow>
          (case map_of kvs ''cold'' of
             Some (PBool c) \<Rightarrow> chk ''cold'' (PBool c) = None
           | _ \<Rightarrow> False) \<and>
          (case map_of kvs ''enabled_fembs'' of
             Some (PList es) \<Rightarrow> length es = 4 \<and> list_all (\<lambda>e. chk ''enabled'' e = None) es
           | _ \<Rightarrow> False) \<and>
          (case map_of kvs ''femb_configs'' of
             Some (PList fs) \<Rightarrow> length fs = 4 \<and> list_all (well_formed_femb chk) fs
           | _ \<Rightarrow> False)
      | _ \<Rightarrow> False)"

section \<open>Properties of the histogram view\<close>

lemma shape3_sub0:
  assumes "shape3 a d0 d1 d2" "0 < d0"
  obtains s0 rest where "a = s0 # rest" "length s0 = d1" "\<And>c. c < d1 \<Longrightarrow> length (s0 ! c) = d2"
proof -
  from assms obtain s0 rest where a: "a = s0 # rest"
    by (cases a) (auto simp: shape3_def)
  with assms have "length s0 = d1" "list_all (\<lambda>r. length r = d2) s0"
    by (auto simp: shape3_def)
  then have "length s0 = d1" "\<And>c. c < d1 \<Longrightarrow> length (s0 ! c) = d2"
    by (auto simp: list_all_length)
  with a show thesis by (rule that)
qed

lemma length_chan: "length chan = 128"
  by (simp add: chan_def)

lemma nth_chan: "c < 128 \<Longrightarrow> chan ! c = c"
  by (simp add: chan_def)

lemma set_chan: "set chan = {0..<128}"
  by (simp add: chan_def)

lemma length_Hist2DView_samples: "length Hist2DView_samples = 16385"
  by (simp add: Hist2DView_samples_def)

lemma nth_Hist2DView_samples: "i < 16385 \<Longrightarrow> Hist2DView_samples ! i = int i"
  by (simp add: Hist2DView_samples_def)

lemma Hist2DView_fill_ok:
  "\<forall>i\<in>set is. i < length s0 \<Longrightarrow>
   Hist2DView_fill s0 is v =
     (Returned, v\<lparr>counts := counts v @ map (\<lambda>i. np_histogram (map uint (s0 ! i)) Hist2DView_samples) is\<rparr>)"
  by (induction "is" arbitrary: v) simp_all

lemma Hist2DView_load_data_ok:
  assumes "smp = s0 # rest" "128 \<le> length s0"
  shows "Hist2DView_load_data ts smp v =
     (Returned, v\<lparr>counts := map (\<lambda>i. np_histogram (map uint (s0 ! i)) Hist2DView_samples) chan\<rparr>)"
  using assms by (simp add: Hist2DView_load_data_def Hist2DView_fill_ok set_chan)

lemma in_bin_Hist2DView_samples:
  "b < 16384 \<Longrightarrow>
   in_bin Hist2DView_samples b v = (int b \<le> v \<and> (if b = 16383 then v \<le> 16384 else v < int b + 1))"
  by (auto simp: in_bin_def length_Hist2DView_samples nth_Hist2DView_samples)

lemma length_np_histogram: "length (np_histogram a Hist2DView_samples) = 16384"
  by (simp add: np_histogram_def length_Hist2DView_samples)

lemma nth_np_histogram:
  "b < 16384 \<Longrightarrow>
   np_histogram a Hist2DView_samples ! b = length (filter (in_bin Hist2DView_samples b) a)"
  by (simp add: np_histogram_def length_Hist2DView_samples)

lemma sum_counts_swap:
  "(\<Sum>b\<leftarrow>bs. length (filter (P b) xs)) = (\<Sum>x\<leftarrow>xs. length (filter (\<lambda>b. P b x) bs))"
proof (induction xs)
  case Nil
  then show ?case by simp
next
  case (Cons x xs)
  have "(\<Sum>b\<leftarrow>bs. length (filter (P b) (x # xs))) =
        (\<Sum>b\<leftarrow>bs. (if P b x then 1 else 0) + length (filter (P b) xs))"
    by (rule arg_cong [where f = sum_list]) simp
  also have "\<dots> = (\<Sum>b\<leftarrow>bs. if P b x then 1 else 0) + (\<Sum>b\<leftarrow>bs. length (filter (P b) xs))"
    by (simp add: sum_list_addf)
  also have "(\<Sum>b\<leftarrow>bs. if P b x then 1 else 0) = length (filter (\<lambda>b. P b x) bs)"
    by (induction bs) simp_all
  finally show ?case using Cons.IH by simp
qed

lemma length_filter_eq_upt: "length (filter (\<lambda>b. k = b) [0..<n]) = (if k < n then 1 else 0)"
  by (induction n) auto

lemma one_bin:
  assumes "0 \<le> x" "x < 16384"
  shows "length (filter (\<lambda>b. in_bin Hist2DView_samples b x) [0..<16384]) = 1"
proof -
  have "filter (\<lambda>b. in_bin Hist2DView_samples b x) [0..<16384] = filter (\<lambda>b. nat x = b) [0..<16384]"
    using assms by (intro filter_cong refl) (auto simp: in_bin_Hist2DView_samples)
  then show ?thesis
    using assms by (simp only: length_filter_eq_upt) simp
qed

lemma uint_less_if_unat_less: "unat (x::'a::len word) < n \<Longrightarrow> uint x < int n"
  unfolding unat_eq_nat_uint using uint_ge_0 [of x] by linarith

lemma uint_less_16384: "unat (x::'a::len word) < 16384 \<Longrightarrow> uint x < 16384"
  using uint_less_if_unat_less [of x 16384] by simp

lemma sum_np_histogram:
  assumes "\<forall>x\<in>set a. 0 \<le> x \<and> x < 16384"
  shows "sum_list (np_histogram a Hist2DView_samples) = length a"
proof -
  have "np_histogram a Hist2DView_samples =
        map (\<lambda>b. length (filter (in_bin Hist2DView_samples b) a)) [0..<16384]"
    by (simp add: np_histogram_def length_Hist2DView_samples)
  then have "sum_list (np_histogram a Hist2DView_samples) =
        (\<Sum>b\<leftarrow>[0..<16384]. length (filter (in_bin Hist2DView_samples b) a))"
    by (rule arg_cong)
  also have "\<dots> = (\<Sum>x\<leftarrow>a. length (filter (\<lambda>b. in_bin Hist2DView_samples b x) [0..<16384]))"
    by (rule sum_counts_swap)
  also have "\<dots> = (\<Sum>x\<leftarrow>a. 1)"
    using assms by (intro arg_cong [where f = sum_list] map_cong refl) (simp only: one_bin)
  finally show ?thesis by (simp add: sum_list_triv)
qed

text \<open>Claim C5. For every \<open>N\<close> and every sample array of shape \<open>(4, 128, N)\<close> whose
  sub-unit 0 holds only values below 16384, \<^verbatim>\<open>Hist2DView.load_data\<close> returns, and
  the counts of every channel add up to \<open>N\<close>: no sample is dropped.\<close>

theorem Hist2DView_no_samples_dropped:
  assumes "shape3 smp 4 128 N"
    and "list_all (\<lambda>row. list_all (\<lambda>x. unat x < 16384) row) (smp ! 0)"
    and "c < 128"
  shows "\<exists>v'. Hist2DView_load_data ts smp v = (Returned, v') \<and>
               sum_list (counts v' ! c) = N"
proof -
  from assms(1) obtain s0 rest where s: "smp = s0 # rest" "length s0 = 128"
    and len: "\<And>c. c < 128 \<Longrightarrow> length (s0 ! c) = N"
    by (rule shape3_sub0) simp_all
  from assms(2,3) s have "\<forall>x\<in>set (s0 ! c). unat x < 16384"
    by (auto simp: list_all_length in_set_conv_nth)
  then have "\<forall>x\<in>set (map uint (s0 ! c)). 0 \<le> x \<and> x < 16384"
    by (auto intro!: uint_less_16384)
  then have "sum_list (np_histogram (map uint (s0 ! c)) Hist2DView_samples) = N"
    using len [OF assms(3)] by (simp add: sum_np_histogram)
  with s assms(3) show ?thesis
    by (simp add: Hist2DView_load_data_ok length_chan nth_chan)
qed


theorem Hist2DView_no_samples_dropped_witness:
  "shape3 (replicate 4 (replicate 128 [5, 9, 5 :: u16])) 4 128 3 \<and>
   (\<exists>v'. Hist2DView_load_data [] (replicate 4 (replicate 128 [5, 9, 5])) Hist2DView_init =
            (Returned, v') \<and> sum_list (counts v' ! 7) = 3)"
proof -
  have sh: "shape3 (replicate 4 (replicate 128 [5, 9, 5 :: u16])) 4 128 3"
    by (simp add: shape3_def list_all_iff)
  have rg: "list_all (\<lambda>row. list_all (\<lambda>x. unat x < 16384) row)
              (replicate 4 (replicate 128 [5, 9, 5 :: u16]) ! 0)"
    by (simp add: list_all_iff)
  show ?thesis
    using sh Hist2DView_no_samples_dropped [OF sh rg, of 7 "[]" Hist2DView_init] by simp
qed

lemma Hist2DView_load_data_shape:
  assumes "shape3 smp 4 128 N"
  shows "Hist2DView_load_data ts smp v =
     (Returned, v\<lparr>counts := map (\<lambda>i. np_histogram (map uint (smp ! 0 ! i))
                                   Hist2DView_samples) chan\<rparr>)"
proof -
  from assms obtain s0 rest where s: "smp = s0 # rest" "length s0 = 128"
    by (rule shape3_sub0) simp_all
  then show ?thesis by (simp add: Hist2DView_load_data_ok)
qed

lemma in_bin_unit:
  assumes "b < 16383"
  shows "in_bin Hist2DView_samples b (uint (x::'a::len word)) = (unat x = b)"
proof -
  have "in_bin Hist2DView_samples b (uint x) = (int b \<le> uint x \<and> uint x < int b + 1)"
    using assms by (simp add: in_bin_Hist2DView_samples)
  also have "\<dots> = (unat x = b)"
    unfolding unat_eq_nat_uint using uint_ge_0 [of x] by linarith
  finally show ?thesis .
qed

lemma in_bin_last:
  "in_bin Hist2DView_samples 16383 (uint (x::'a::len word)) = (unat x = 16383 \<or> unat x = 16384)"
proof -
  have "in_bin Hist2DView_samples 16383 (uint x) = (16383 \<le> uint x \<and> uint x \<le> 16384)"
    by (simp add: in_bin_Hist2DView_samples)
  also have "\<dots> = (unat x = 16383 \<or> unat x = 16384)"
    unfolding unat_eq_nat_uint using uint_ge_0 [of x] by linarith
  finally show ?thesis .
qed

lemma np_histogram_unit_bin:
  assumes "b < 16383"
  shows "np_histogram (map uint row) Hist2DView_samples ! b =
         length (filter (\<lambda>x. unat x = b) row)"
  using assms by (simp add: nth_np_histogram filter_map comp_def in_bin_unit)

lemma np_histogram_last_bin:
  "np_histogram (map uint row) Hist2DView_samples ! 16383 =
   length (filter (\<lambda>x. unat x = 16383 \<or> unat x = 16384) row)"
  by (simp add: nth_np_histogram filter_map comp_def in_bin_last)

text \<open>Claim C2, as the program has it. For every sample array of shape
  \<open>(4, 128, N)\<close>, \<^verbatim>\<open>Hist2DView.load_data\<close> returns a matrix of 128 rows of 16384
  counts; the bins are one value wide, with edges \<open>0, 1, \<dots>, 16384\<close>: bin \<open>b\<close> counts
  the timesteps of the channel whose value is \<open>b\<close>, and the last bin, closed on the
  right, counts the values 16383 and 16384. Larger values are in no bin.\<close>

theorem Hist2DView_unit_bins:
  assumes "shape3 smp 4 128 N" and "c < 128"
  shows "\<exists>v'. Hist2DView_load_data ts smp v = (Returned, v') \<and>
               length (counts v') = 128 \<and> length (counts v' ! c) = 16384 \<and>
               (\<forall>b<16383. counts v' ! c ! b = length (filter (\<lambda>x. unat x = b) (smp ! 0 ! c))) \<and>
               counts v' ! c ! 16383 =
                 length (filter (\<lambda>x. unat x = 16383 \<or> unat x = 16384) (smp ! 0 ! c))"
  using assms(2)
  by (simp add: Hist2DView_load_data_shape [OF assms(1)] length_chan nth_chan
      length_np_histogram np_histogram_unit_bin np_histogram_last_bin)

theorem Hist2DView_unit_bins_witness:
  "shape3 (replicate 4 (replicate 128 [4, 20000 :: u16])) 4 128 2 \<and>
   (\<exists>v'. Hist2DView_load_data [] (replicate 4 (replicate 128 [4, 20000])) Hist2DView_init =
            (Returned, v') \<and>
          length (counts v') = 128 \<and> length (counts v' ! 0) = 16384 \<and>
          counts v' ! 0 ! 4 = 1 \<and> counts v' ! 0 ! 1 = 0 \<and> counts v' ! 0 ! 16383 = 0)"
proof -
  have sh: "shape3 (replicate 4 (replicate 128 [4, 20000 :: u16])) 4 128 2"
    by (simp add: shape3_def list_all_iff)
  from Hist2DView_unit_bins [OF sh, of 0 "[]" Hist2DView_init]
  obtain v' where v': "Hist2DView_load_data [] (replicate 4 (replicate 128 [4, 20000])) Hist2DView_init =
            (Returned, v')" "length (counts v') = 128" "length (counts v' ! 0) = 16384"
    "\<forall>b<16383. counts v' ! 0 ! b = length (filter (\<lambda>x. unat x = b) [4, 20000 :: u16])"
    "counts v' ! 0 ! 16383 = length (filter (\<lambda>x. unat x = 16383 \<or> unat x = 16384) [4, 20000 :: u16])"
    by auto
  from v'(4) have "counts v' ! 0 ! 4 = 1" "counts v' ! 0 ! 1 = 0" by simp_all
  moreover from v'(5) have "counts v' ! 0 ! 16383 = 0" by simp
  ultimately show ?thesis using sh v'(1,2,3) by simp
qed

text \<open>The bins do not span the 16-bit range in steps of four: the value 20000 would
  be counted in bin 5000 of such a histogram, and the program counts it nowhere.\<close>

theorem Hist2DView_not_16bit_range:
  "counts (snd (Hist2DView_load_data [] (replicate 4 (replicate 128 [20000])) Hist2DView_init))
     ! 0 ! 5000 = 0 \<and>
   spec_hist16 [20000] ! 5000 = 1"
proof -
  have sh: "shape3 (replicate 4 (replicate 128 [20000 :: u16])) 4 128 1"
    by (simp add: shape3_def list_all_iff)
  have "counts (snd (Hist2DView_load_data [] (replicate 4 (replicate 128 [20000])) Hist2DView_init))
     ! 0 ! 5000 = 0"
    by (simp add: Hist2DView_load_data_shape [OF sh] nth_chan length_chan nth_np_histogram
        in_bin_Hist2DView_samples)
  moreover have "spec_hist16 [20000] ! 5000 = 1"
    by (simp add: spec_hist16_def spec_bin16_def)
  ultimately show ?thesis ..
qed

section \<open>Properties of the mean and RMS view\<close>

lemma MeanRMSView_load_data_shape:
  assumes "shape3 smp 4 128 N"
  shows "MeanRMSView_load_data ts smp v =
           (Returned, v\<lparr>rms := map np_std (smp ! 0), mean := map np_mean (smp ! 0)\<rparr>)"
    and "length (smp ! 0) = 128"
proof -
  from assms obtain s0 rest where s: "smp = s0 # rest" "length s0 = 128"
    by (rule shape3_sub0) simp_all
  then show "MeanRMSView_load_data ts smp v =
           (Returned, v\<lparr>rms := map np_std (smp ! 0), mean := map np_mean (smp ! 0)\<rparr>)"
    by (simp add: MeanRMSView_load_data_def)
  from s show "length (smp ! 0) = 128" by simp
qed

lemma shape3_row:
  assumes "shape3 smp 4 128 N" "c < 128"
  shows "length (smp ! 0 ! c) = N"
proof -
  from assms(1) obtain s0 rest where s: "smp = s0 # rest"
    and len: "\<And>c. c < 128 \<Longrightarrow> length (s0 ! c) = N"
    by (rule shape3_sub0) simp_all
  with assms(2) show ?thesis by simp
qed

lemma mean_real_replicate: "0 < n \<Longrightarrow> mean_real (replicate n a) = a"
  by (simp add: mean_real_def sum_list_replicate)

lemma constant_row:
  assumes "list_all (\<lambda>x. x = k) row"
  shows "row = replicate (length row) k"
proof -
  from assms have "\<forall>y\<in>set row. y = k" by (simp add: list_all_iff)
  then show ?thesis by (simp add: replicate_length_same)
qed

lemma np_mean_constant:
  assumes "list_all (\<lambda>x. x = k) row" "row \<noteq> []"
  shows "np_mean row = Finite (real (unat k))"
proof -
  have "np_mean (replicate (length row) k) = Finite (real (unat k))"
    using assms(2) by (simp add: np_mean_def mean_real_replicate)
  with constant_row [OF assms(1)] show ?thesis by simp
qed

lemma np_std_constant:
  assumes "list_all (\<lambda>x. x = k) row" "row \<noteq> []"
  shows "np_std row = Finite 0"
proof -
  have "np_std (replicate (length row) k) = Finite 0"
    using assms(2) by (simp add: np_std_def Let_def mean_real_replicate)
  with constant_row [OF assms(1)] show ?thesis by simp
qed

text \<open>Claim C3. For every sample array of shape \<open>(4, 128, N)\<close> with \<open>N \<ge> 1\<close> and any
  timestamps, \<^verbatim>\<open>MeanRMSView.load_data\<close> returns with \<open>mean\<close> and \<open>rms\<close> of 128 entries;
  entry \<open>c\<close> is the arithmetic mean, and the population standard deviation, of channel
  \<open>c\<close> of sub-unit 0 over its \<open>N\<close> timesteps. A channel whose values all equal \<open>k\<close> has
  mean \<open>k\<close> and rms 0.\<close>

theorem MeanRMSView_mean_and_rms:
  assumes "shape3 smp 4 128 N" and "1 \<le> N" and "c < 128"
  shows "\<exists>v'. MeanRMSView_load_data ts smp v = (Returned, v') \<and>
           length (mean v') = 128 \<and> length (rms v') = 128 \<and>
           mean v' ! c = Finite ((\<Sum>x\<leftarrow>smp ! 0 ! c. real (unat x)) / real N) \<and>
           rms v' ! c =
             Finite (sqrt ((\<Sum>x\<leftarrow>smp ! 0 ! c.
                              (real (unat x) - (\<Sum>y\<leftarrow>smp ! 0 ! c. real (unat y)) / real N)\<^sup>2)
                           / real N)) \<and>
           (\<forall>k. list_all (\<lambda>x. x = k) (smp ! 0 ! c) \<longrightarrow>
                mean v' ! c = Finite (real (unat k)) \<and> rms v' ! c = Finite 0)"
proof -
  let ?row = "smp ! 0 ! c"
  have len: "length ?row = N" by (rule shape3_row [OF assms(1,3)])
  with assms(2) have ne: "?row \<noteq> []" by auto
  have m: "np_mean ?row = Finite ((\<Sum>x\<leftarrow>?row. real (unat x)) / real N)"
    using ne len by (simp add: np_mean_def mean_real_def)
  have r: "np_std ?row =
             Finite (sqrt ((\<Sum>x\<leftarrow>?row. (real (unat x) - (\<Sum>y\<leftarrow>?row. real (unat y)) / real N)\<^sup>2)
                           / real N))"
    using ne len by (simp add: np_std_def Let_def mean_real_def comp_def)
  have k: "\<forall>k. list_all (\<lambda>x. x = k) ?row \<longrightarrow>
                np_mean ?row = Finite (real (unat k)) \<and> np_std ?row = Finite 0"
    using ne by (simp add: np_mean_constant np_std_constant)
  let ?v' = "v\<lparr>rms := map np_std (smp ! 0), mean := map np_mean (smp ! 0)\<rparr>"
  note L = MeanRMSView_load_data_shape [OF assms(1)]
  have sel: "length (mean ?v') = 128" "length (rms ?v') = 128"
    "mean ?v' ! c = np_mean ?row" "rms ?v' ! c = np_std ?row"
    using assms(3) L(2) by simp_all
  have F: "MeanRMSView_load_data ts smp v = (Returned, ?v') \<and>
           length (mean ?v') = 128 \<and> length (rms ?v') = 128 \<and>
           mean ?v' ! c = Finite ((\<Sum>x\<leftarrow>?row. real (unat x)) / real N) \<and>
           rms ?v' ! c =
             Finite (sqrt ((\<Sum>x\<leftarrow>?row. (real (unat x) - (\<Sum>y\<leftarrow>?row. real (unat y)) / real N)\<^sup>2)
                           / real N)) \<and>
           (\<forall>k. list_all (\<lambda>x. x = k) ?row \<longrightarrow>
                mean ?v' ! c = Finite (real (unat k)) \<and> rms ?v' ! c = Finite 0)"
    unfolding sel using L(1) m r k by blast
  show ?thesis by (rule exI [where x = "?v'"]) (rule F)
qed

theorem MeanRMSView_mean_and_rms_witness:
  "shape3 (replicate 4 (replicate 128 [7, 7, 7 :: u16])) 4 128 3 \<and>
   (\<exists>v'. MeanRMSView_load_data [] (replicate 4 (replicate 128 [7, 7, 7])) MeanRMSView_init =
            (Returned, v') \<and>
          length (mean v') = 128 \<and> length (rms v') = 128 \<and>
          mean v' ! 5 = Finite 7 \<and> rms v' ! 5 = Finite 0)"
proof -
  have sh: "shape3 (replicate 4 (replicate 128 [7, 7, 7 :: u16])) 4 128 3"
    by (simp add: shape3_def list_all_iff)
  from MeanRMSView_mean_and_rms [OF sh, of 5 "[]" MeanRMSView_init]
  obtain v' where v': "MeanRMSView_load_data [] (replicate 4 (replicate 128 [7, 7, 7])) MeanRMSView_init =
            (Returned, v')" "length (mean v') = 128" "length (rms v') = 128"
    and k: "\<forall>k. list_all (\<lambda>x. x = k) [7, 7, 7 :: u16] \<longrightarrow>
                mean v' ! 5 = Finite (real (unat k)) \<and> rms v' ! 5 = Finite 0"
    by auto
  from k have "mean v' ! 5 = Finite 7 \<and> rms v' ! 5 = Finite 0"
    by (drule_tac x = 7 in spec) simp
  with sh v' show ?thesis by blast
qed

section \<open>Properties of the spectrum view\<close>

lemma half_split: "0 < n \<Longrightarrow> (n - 1) div 2 + 1 + n div 2 = (n::nat)"
  by presburger

lemma half_le: "0 < n \<Longrightarrow> (n - 1) div 2 + 1 \<le> (n::nat)"
  by presburger

lemma length_np_fftfreq: "0 < n \<Longrightarrow> length (np_fftfreq n d) = n"
  using half_split [of n] by (simp add: np_fftfreq_def Let_def)

lemma nth_np_fftfreq:
  assumes "0 < n" "i < n"
  shows "np_fftfreq n d ! i =
         real_of_int (if i < (n - 1) div 2 + 1 then int i else int i - int n) * (1 / (real n * d))"
proof -
  let ?M = "(n - 1) div 2 + 1"
  let ?ks = "map int [0..<?M] @ [- int (n div 2)..- 1]"
  have len: "length ?ks = n" using half_split [OF assms(1)] by simp
  have "?ks ! i = (if i < ?M then int i else int i - int n)"
  proof (cases "i < ?M")
    case True
    then show ?thesis by (simp add: nth_append)
  next
    case False
    then have "?ks ! i = [- int (n div 2)..- 1] ! (i - ?M)"
      by (simp add: nth_append)
    also have "\<dots> = - int (n div 2) + int (i - ?M)"
      using False assms half_split [OF assms(1)] by (intro nth_upto) linarith
    also have "\<dots> = int i - int n"
      using False assms half_split [OF assms(1)] by linarith
    finally show ?thesis using False by simp
  qed
  moreover have "np_fftfreq n d ! i = real_of_int (?ks ! i) * (1 / (real n * d))"
    unfolding np_fftfreq_def Let_def by (rule nth_map) (simp only: len assms(2))
  ultimately show ?thesis by (simp only:)
qed

lemma filter_eq_distinct:
  "distinct zs \<Longrightarrow> k \<in> set zs \<Longrightarrow> filter (\<lambda>x. k = x) zs = [k]"
proof (induction zs)
  case Nil
  then show ?case by simp
next
  case (Cons z zs)
  show ?case
  proof (cases "k = z")
    case True
    with Cons.prems have "k \<notin> set zs" by simp
    then have "filter (\<lambda>x. k = x) zs = []" by (auto simp: filter_empty_conv)
    with True show ?thesis by simp
  next
    case False
    with Cons show ?thesis by auto
  qed
qed

lemma sort_key_inj:
  assumes "mset ys = mset xs" "distinct xs" "inj_on f (set xs)" "sorted (map f ys)"
  shows "sort_key f xs = ys"
proof (rule properties_for_sort_key [OF assms(1) _ assms(4)])
  fix k assume k: "k \<in> set ys"
  from assms(1) have set: "set ys = set xs" by (rule mset_eq_setD)
  from assms(1,2) have dy: "distinct ys" by (metis mset_eq_imp_distinct_iff)
  have "filter (\<lambda>x. f k = f x) ys = filter (\<lambda>x. k = x) ys"
    using k set assms(3) by (intro filter_cong refl) (auto dest: inj_onD)
  moreover have "filter (\<lambda>x. f k = f x) xs = filter (\<lambda>x. k = x) xs"
    using k set assms(3) by (intro filter_cong refl) (auto dest: inj_onD)
  ultimately show "filter (\<lambda>x. f k = f x) ys = filter (\<lambda>x. f k = f x) xs"
    using k set dy assms(2) by (simp add: filter_eq_distinct)
qed


lemma np_argsort_fftfreq:
  assumes "0 < n" "0 < d"
  shows "np_argsort (np_fftfreq n d) = [(n - 1) div 2 + 1..<n] @ [0..<(n - 1) div 2 + 1]"
proof -
  let ?M = "(n - 1) div 2 + 1"
  let ?fr = "np_fftfreq n d"
  let ?val = "1 / (real n * d)"
  let ?g = "\<lambda>i. if i < ?M then int i else int i - int n"
  have val: "0 < ?val" using assms by simp
  have M: "?M \<le> n" by (rule half_le [OF assms(1)])
  have f: "?fr ! i = real_of_int (?g i) * ?val" if "i < n" for i
    using nth_np_fftfreq [OF assms(1) that, of d] by simp
  have le: "?fr ! i \<le> ?fr ! j" if "i < n" "j < n" "?g i \<le> ?g j" for i j
  proof -
    from that(3) have "real_of_int (?g i) \<le> real_of_int (?g j)" by (simp only: of_int_le_iff)
    then have "real_of_int (?g i) * ?val \<le> real_of_int (?g j) * ?val"
      using val by (intro mult_right_mono) simp_all
    with f [OF that(1)] f [OF that(2)] show ?thesis by (simp only:)
  qed
  have inj: "inj_on (\<lambda>i. ?fr ! i) (set [0..<n])"
  proof (rule inj_onI)
    fix i j assume "i \<in> set [0..<n]" "j \<in> set [0..<n]" and eq: "?fr ! i = ?fr ! j"
    then have ij: "i < n" "j < n" by simp_all
    from eq f [OF ij(1)] f [OF ij(2)]
    have "real_of_int (?g i) * ?val = real_of_int (?g j) * ?val" by (simp only:)
    moreover have "?val \<noteq> 0" using assms by simp
    ultimately have "real_of_int (?g i) = real_of_int (?g j)"
      by (metis mult_right_cancel)
    then have "?g i = ?g j" by (simp only: of_int_eq_iff)
    with ij show "i = j" by (auto split: if_splits)
  qed
  have s1: "sorted (map (\<lambda>i. ?fr ! i) [?M..<n])"
    unfolding sorted_map
    by (rule sorted_wrt_mono_rel [OF _ sorted_wrt_upt]) (auto intro!: le)
  have s2: "sorted (map (\<lambda>i. ?fr ! i) [0..<?M])"
    unfolding sorted_map
    using M by (intro sorted_wrt_mono_rel [OF _ sorted_wrt_upt]) (auto intro!: le)
  have s3: "\<forall>x\<in>set [?M..<n]. \<forall>y\<in>set [0..<?M]. ?fr ! x \<le> ?fr ! y"
    using M by (auto intro!: le)
  have srt: "sorted (map (\<lambda>i. ?fr ! i) ([?M..<n] @ [0..<?M]))"
    using s1 s2 s3 by (simp only: map_append sorted_append set_map) blast
  have "[0..<?M + (n - ?M)] = [0..<?M] @ [?M..<?M + (n - ?M)]"
    by (rule upt_add_eq_append) simp
  with M have "[0..<n] = [0..<?M] @ [?M..<n]"
    by (simp only: le_add_diff_inverse)
  then have ms: "mset ([?M..<n] @ [0..<?M]) = mset [0..<n]"
    by (simp only: mset_append union_commute)
  have "sort_key (\<lambda>i. ?fr ! i) [0..<n] = [?M..<n] @ [0..<?M]"
    using ms distinct_upt inj srt by (rule sort_key_inj)
  then show ?thesis
    by (simp only: np_argsort_def length_np_fftfreq [OF assms(1)])
qed

lemma upper_half_idx_fftfreq:
  assumes "0 < n" "0 < d"
  shows "upper_half_idx (np_fftfreq n d) = [0..<(n - 1) div 2 + 1]"
proof -
  have "length [(n - 1) div 2 + 1..<n] = n div 2"
    using half_split [OF assms(1)] by simp
  then show ?thesis
    by (simp add: upper_half_idx_def np_argsort_fftfreq [OF assms] length_np_fftfreq [OF assms(1)]
        del: upt_Suc)
qed

lemma take_idx_fftfreq:
  assumes "0 < n"
  shows "take_idx (np_fftfreq n d) [0..<(n - 1) div 2 + 1] =
         Inr (map (\<lambda>k. real k / (real n * d)) [0..<(n - 1) div 2 + 1])"
proof -
  let ?M = "(n - 1) div 2 + 1"
  have M: "?M \<le> n" by (rule half_le [OF assms])
  then have "list_all (\<lambda>i. i < length (np_fftfreq n d)) [0..<?M]"
    by (simp add: list_all_iff length_np_fftfreq [OF assms] del: upt_Suc)
  moreover have "map (\<lambda>i. np_fftfreq n d ! i) [0..<?M] = map (\<lambda>k. real k / (real n * d)) [0..<?M]"
  proof (rule map_cong [OF refl])
    fix i assume "i \<in> set [0..<?M]"
    then have i: "i < ?M" by (simp only: set_upt atLeastLessThan_iff)
    with M have "i < n" by linarith
    from nth_np_fftfreq [OF assms this, of d] i
    show "np_fftfreq n d ! i = real i / (real n * d)" by simp
  qed
  ultimately show ?thesis by (simp only: take_idx_def if_True)
qed

lemma take_idx_upt: "m \<le> n \<Longrightarrow> take_idx (map f [0..<n]) [0..<m] = Inr (map f [0..<m])"
  by (simp add: take_idx_def list_all_iff)

lemma FFTView_fill_ok:
  assumes "\<forall>i\<in>set is. i < length s0 \<and> length (s0 ! i) = N" "0 < N" "M \<le> N"
  shows "FFTView_fill s0 [0..<M] is v =
     (Returned, v\<lparr>fft := fft v @ map (\<lambda>i. map (\<lambda>k. (cmod (dft (s0 ! i) k))\<^sup>2) [0..<M]) is\<rparr>)"
  using assms(1)
proof (induction "is" arbitrary: v)
  case Nil
  then show ?case by simp
next
  case (Cons i "is")
  from Cons.prems have i: "i < length s0" "length (s0 ! i) = N" by simp_all
  have X: "np_fft (s0 ! i) = Inr (map (dft (s0 ! i)) [0..<N])"
    using i(2) assms(2) by (simp add: np_fft_def)
  have T: "take_idx (map (dft (s0 ! i)) [0..<N]) [0..<M] = Inr (map (dft (s0 ! i)) [0..<M])"
    by (rule take_idx_upt [OF assms(3)])
  from Cons.prems have "\<forall>i\<in>set is. i < length s0 \<and> length (s0 ! i) = N" by simp
  from Cons.IH [OF this] i(1) show ?case
    by (simp add: X T comp_def del: upt_Suc)
qed

lemma sample_interval_pos: "0 < sample_interval"
  by (simp add: sample_interval_def)

lemma FFTView_load_data_shape:
  assumes "shape3 smp 4 128 N" "0 < N"
  shows "FFTView_load_data ts smp v =
     (Returned,
      v\<lparr>freq := map (\<lambda>k. real k / (real N * sample_interval)) [0..<(N - 1) div 2 + 1],
        fft := map (\<lambda>i. map (\<lambda>k. (cmod (dft (smp ! 0 ! i) k))\<^sup>2) [0..<(N - 1) div 2 + 1]) chan\<rparr>)"
proof -
  define M where "M = (N - 1) div 2 + 1"
  from assms(1) obtain s0 rest where s: "smp = s0 # rest" "length s0 = 128"
    and len: "\<And>c. c < 128 \<Longrightarrow> length (s0 ! c) = N"
    by (rule shape3_sub0) simp_all
  from s(2) obtain r0 rs where r: "s0 = r0 # rs" by (cases s0) simp_all
  with len [of 0] have r0: "length r0 = N" by simp
  have rows: "\<forall>i\<in>set chan. i < length s0 \<and> length (s0 ! i) = N"
    using s(2) len by (simp add: set_chan)
  have Mle: "M \<le> N" unfolding M_def by (rule half_le [OF assms(2)])
  have idx: "upper_half_idx (np_fftfreq N sample_interval) = [0..<M]"
    unfolding M_def by (rule upper_half_idx_fftfreq [OF assms(2) sample_interval_pos])
  have tk: "take_idx (np_fftfreq N sample_interval) [0..<M] =
            Inr (map (\<lambda>k. real k / (real N * sample_interval)) [0..<M])"
    unfolding M_def by (rule take_idx_fftfreq [OF assms(2)])
  have fill: "FFTView_fill s0 [0..<M] chan (v\<lparr>freq := f, fft := []\<rparr>) =
     (Returned, v\<lparr>freq := f, fft := map (\<lambda>i. map (\<lambda>k. (cmod (dft (s0 ! i) k))\<^sup>2) [0..<M]) chan\<rparr>)"
    for f
    using FFTView_fill_ok [OF rows assms(2) Mle, of "v\<lparr>freq := f, fft := []\<rparr>"]
    by simp
  have "FFTView_load_data ts (s0 # rest) v =
     (Returned,
      v\<lparr>freq := map (\<lambda>k. real k / (real N * sample_interval)) [0..<M],
        fft := map (\<lambda>i. map (\<lambda>k. (cmod (dft (s0 ! i) k))\<^sup>2) [0..<M]) chan\<rparr>)"
    using assms(2) r0 fill
    by (simp add: FFTView_load_data_def r Let_def idx tk)
  with s(1) show ?thesis unfolding M_def by simp
qed

lemma sum_list_of_real:
  "(\<Sum>x\<leftarrow>xs. complex_of_real (g x)) = complex_of_real (\<Sum>x\<leftarrow>xs. g x)"
  by (induction xs) simp_all

lemma dft_zero: "dft row 0 = complex_of_real (\<Sum>x\<leftarrow>row. real (unat x))"
proof -
  have "dft row 0 = (\<Sum>t\<leftarrow>[0..<length row]. complex_of_real (real (unat (row ! t))))"
    by (simp add: dft_def)
  also have "\<dots> = (\<Sum>x\<leftarrow>map (\<lambda>t. row ! t) [0..<length row]. complex_of_real (real (unat x)))"
    by (simp only: map_map comp_def)
  also have "\<dots> = (\<Sum>x\<leftarrow>row. complex_of_real (real (unat x)))"
    by (simp only: map_nth)
  finally show ?thesis by (simp only: sum_list_of_real)
qed

lemma dc_power: "(cmod (dft row 0))\<^sup>2 = (\<Sum>x\<leftarrow>row. real (unat x))\<^sup>2"
  by (simp only: dft_zero norm_of_real power2_abs)

lemma freq_axis:
  assumes "0 < N" "0 < M"
  defines "f \<equiv> map (\<lambda>k. real k / (real N * sample_interval)) [0..<M]"
  shows "length f = M" "sorted_wrt (<) f" "f ! 0 = 0"
proof -
  have pos: "0 < real N * sample_interval"
    using assms(1) sample_interval_pos by simp
  show "length f = M" by (simp add: f_def)
  have "sorted_wrt (\<lambda>x y. real x / (real N * sample_interval) < real y / (real N * sample_interval))
          [0..<M]"
    by (rule sorted_wrt_mono_rel [OF _ sorted_wrt_upt])
       (simp add: divide_strict_right_mono [OF _ pos])
  then show "sorted_wrt (<) f" by (simp only: f_def sorted_wrt_map)
  from assms(2) show "f ! 0 = 0" by (simp add: f_def)
qed

lemma FFTView_loaded:
  assumes "shape3 smp 4 128 N" "0 < N" "c < 128"
  defines "M \<equiv> (N - 1) div 2 + 1"
  shows "\<exists>v'. FFTView_load_data ts smp v = (Returned, v') \<and>
           freq v' = map (\<lambda>k. real k / (real N * sample_interval)) [0..<M] \<and>
           length (freq v') = M \<and> sorted_wrt (<) (freq v') \<and> freq v' ! 0 = 0 \<and>
           length (fft v') = 128 \<and> length (fft v' ! c) = M \<and>
           fft v' ! c ! 0 = (\<Sum>x\<leftarrow>smp ! 0 ! c. real (unat x))\<^sup>2"
proof -
  let ?f = "map (\<lambda>k. real k / (real N * sample_interval)) [0..<M]"
  let ?p = "map (\<lambda>i. map (\<lambda>k. (cmod (dft (smp ! 0 ! i) k))\<^sup>2) [0..<M]) chan"
  let ?v' = "v\<lparr>freq := ?f, fft := ?p\<rparr>"
  have M: "0 < M" by (simp add: M_def)
  have L: "FFTView_load_data ts smp v = (Returned, ?v')"
    unfolding M_def by (rule FFTView_load_data_shape [OF assms(1,2)])
  have row: "?p ! c = map (\<lambda>k. (cmod (dft (smp ! 0 ! c) k))\<^sup>2) [0..<M]"
    using assms(3) by (simp add: length_chan nth_chan)
  have dc: "?p ! c ! 0 = (\<Sum>x\<leftarrow>smp ! 0 ! c. real (unat x))\<^sup>2"
    unfolding row using M by (simp add: dc_power)
  have F: "FFTView_load_data ts smp v = (Returned, ?v') \<and>
           freq ?v' = ?f \<and> length (freq ?v') = M \<and> sorted_wrt (<) (freq ?v') \<and>
           freq ?v' ! 0 = 0 \<and> length (fft ?v') = 128 \<and> length (fft ?v' ! c) = M \<and>
           fft ?v' ! c ! 0 = (\<Sum>x\<leftarrow>smp ! 0 ! c. real (unat x))\<^sup>2"
    using L freq_axis [OF assms(2) M] row dc by (simp add: length_chan)
  show ?thesis by (rule exI [where x = "?v'"]) (rule F)
qed

text \<open>Claim C4. For every even \<open>N \<ge> 2\<close> and sample array of shape \<open>(4, 128, N)\<close>,
  \<^verbatim>\<open>FFTView.load_data\<close> returns with a frequency axis computed from \<open>N\<close>: its \<open>N div 2\<close>
  entries are \<open>k / (N * 320e-9)\<close> for \<open>k = 0, \<dots>, N div 2 - 1\<close>, strictly increasing
  from 0; and the power of every channel at the zero-frequency bin is the square of the
  sum of the channel's samples.\<close>

theorem FFTView_even_length:
  assumes "shape3 smp 4 128 N" and "even N" and "2 \<le> N" and "c < 128"
  shows "\<exists>v'. FFTView_load_data ts smp v = (Returned, v') \<and>
           freq v' = map (\<lambda>k. real k / (real N * sample_interval)) [0..<N div 2] \<and>
           length (freq v') = N div 2 \<and> sorted_wrt (<) (freq v') \<and> freq v' ! 0 = 0 \<and>
           fft v' ! c ! 0 = (\<Sum>x\<leftarrow>smp ! 0 ! c. real (unat x))\<^sup>2"
proof -
  from assms(2,3) have M: "(N - 1) div 2 + 1 = N div 2" by presburger
  from assms(3) have N: "0 < N" by simp
  from FFTView_loaded [OF assms(1) N assms(4), of ts v] show ?thesis
    unfolding M by blast
qed

theorem FFTView_even_length_witness:
  "shape3 (replicate 4 (replicate 128 [3, 5 :: u16])) 4 128 2 \<and>
   (\<exists>v'. FFTView_load_data [] (replicate 4 (replicate 128 [3, 5])) FFTView_init = (Returned, v') \<and>
          length (freq v') = 1 \<and> freq v' ! 0 = 0 \<and> fft v' ! 9 ! 0 = 64)"
proof -
  have sh: "shape3 (replicate 4 (replicate 128 [3, 5 :: u16])) 4 128 2"
    by (simp add: shape3_def list_all_iff)
  from FFTView_even_length [OF sh, of 9 "[]" FFTView_init]
  obtain v' where "FFTView_load_data [] (replicate 4 (replicate 128 [3, 5])) FFTView_init = (Returned, v')"
    "length (freq v') = 1" "freq v' ! 0 = 0" "fft v' ! 9 ! 0 = 64"
    by auto
  with sh show ?thesis by blast
qed

text \<open>Claim C10. For every odd \<open>N \<ge> 1\<close> and sample array of shape \<open>(4, 128, N)\<close>,
  \<^verbatim>\<open>FFTView.load_data\<close> returns with a frequency axis of \<open>(N + 1) div 2\<close> entries, one
  more than \<open>N div 2\<close>, that starts at 0; the power array has 128 rows of
  \<open>(N + 1) div 2\<close> entries.\<close>

theorem FFTView_odd_length:
  assumes "shape3 smp 4 128 N" and "odd N" and "1 \<le> N" and "c < 128"
  shows "\<exists>v'. FFTView_load_data ts smp v = (Returned, v') \<and>
           length (freq v') = (N + 1) div 2 \<and> length (freq v') = N div 2 + 1 \<and>
           freq v' ! 0 = 0 \<and>
           length (fft v') = 128 \<and> length (fft v' ! c) = (N + 1) div 2"
proof -
  from assms(2) have M: "(N - 1) div 2 + 1 = (N + 1) div 2" "N div 2 + 1 = (N + 1) div 2"
    by presburger+
  from assms(3) have N: "0 < N" by simp
  from FFTView_loaded [OF assms(1) N assms(4), of ts v] show ?thesis
    unfolding M by blast
qed

theorem FFTView_odd_length_witness:
  "shape3 (replicate 4 (replicate 128 [1, 2, 3 :: u16])) 4 128 3 \<and>
   (\<exists>v'. FFTView_load_data [] (replicate 4 (replicate 128 [1, 2, 3])) FFTView_init = (Returned, v') \<and>
          length (freq v') = 2 \<and> freq v' ! 0 = 0 \<and>
          length (fft v') = 128 \<and> length (fft v' ! 127) = 2)"
proof -
  have sh: "shape3 (replicate 4 (replicate 128 [1, 2, 3 :: u16])) 4 128 3"
    by (simp add: shape3_def list_all_iff)
  from FFTView_odd_length [OF sh, of 127 "[]" FFTView_init]
  obtain v' where "FFTView_load_data [] (replicate 4 (replicate 128 [1, 2, 3])) FFTView_init = (Returned, v')"
    "length (freq v') = 2" "freq v' ! 0 = 0" "length (fft v') = 128" "length (fft v' ! 127) = 2"
    by auto
  with sh show ?thesis by blast
qed

section \<open>Properties of the window\<close>

subsection \<open>Continuous mode\<close>

lemma timer_init:
  "timer FEMB0Diagnostics_init = \<lparr>active = False, interval = 0, single_shot = False\<rparr>"
  by (simp add: FEMB0Diagnostics_init_def plot_def)

lemma continuious_button_init: "continuious_button FEMB0Diagnostics_init = ''Continuous''"
  by (simp add: FEMB0Diagnostics_init_def plot_def)

lemma coherent_init: "coherent FEMB0Diagnostics_init \<and> mode_of FEMB0Diagnostics_init = Idle"
  by (simp add: coherent_def mode_of_def timer_init continuious_button_init)

lemma toggle_continuous_coherent:
  assumes "coherent w"
  shows "coherent (toggle_continuous w)"
    and "mode_of (toggle_continuous w) = other_mode (mode_of w)"
    and "continuious_button (toggle_continuous w) = label_of (other_mode (mode_of w))"
    and "timer (toggle_continuous w) =
           (case mode_of w of
              Idle \<Rightarrow> \<lparr>active = True, interval = 500, single_shot = False\<rparr>
            | ContinuousPolling \<Rightarrow> (timer w)\<lparr>active := False\<rparr>)"
  using assms
  by (cases "timer w";
      auto simp: coherent_def mode_of_def toggle_continuous_def print_def Let_def
        split: if_splits)+

text \<open>Claim C6. The window starts in \<open>Idle\<close>, coherent. In a coherent window each
  Continuous action changes to the other state and leaves the window coherent: from
  \<open>Idle\<close> the recurring timer is started with a period of 500 ms and the button reads
  Stop, from \<open>ContinuousPolling\<close> the timer is stopped and the button reads Continuous.
  Start and then stop, from the initial window, ends in \<open>Idle\<close> with the timer
  inactive.\<close>

theorem continuous_mode_toggles:
  "mode_of FEMB0Diagnostics_init = Idle \<and> coherent FEMB0Diagnostics_init \<and>
   (coherent w \<longrightarrow>
      coherent (toggle_continuous w) \<and>
      mode_of (toggle_continuous w) = other_mode (mode_of w) \<and>
      continuious_button (toggle_continuous w) = label_of (mode_of (toggle_continuous w)) \<and>
      timer (toggle_continuous w) =
        (case mode_of w of
           Idle \<Rightarrow> \<lparr>active = True, interval = 500, single_shot = False\<rparr>
         | ContinuousPolling \<Rightarrow> (timer w)\<lparr>active := False\<rparr>)) \<and>
   mode_of (toggle_continuous (toggle_continuous FEMB0Diagnostics_init)) = Idle \<and>
   \<not> active (timer (toggle_continuous (toggle_continuous FEMB0Diagnostics_init)))"
proof -
  have i: "coherent FEMB0Diagnostics_init" "mode_of FEMB0Diagnostics_init = Idle"
    using coherent_init by simp_all
  note t1 = toggle_continuous_coherent [OF i(1)]
  note t2 = toggle_continuous_coherent [OF t1(1)]
  have "mode_of (toggle_continuous (toggle_continuous FEMB0Diagnostics_init)) = Idle"
    by (simp add: t2(2) t1(2) i(2))
  moreover then have "\<not> active (timer (toggle_continuous (toggle_continuous FEMB0Diagnostics_init)))"
    by (simp add: mode_of_def split: if_splits)
  ultimately show ?thesis
    using i by (simp add: toggle_continuous_coherent)
qed

theorem continuous_mode_toggles_witness:
  "coherent FEMB0Diagnostics_init \<and>
   mode_of (toggle_continuous FEMB0Diagnostics_init) = ContinuousPolling \<and>
   continuious_button (toggle_continuous FEMB0Diagnostics_init) = ''Stop'' \<and>
   timer (toggle_continuous FEMB0Diagnostics_init) =
     \<lparr>active = True, interval = 500, single_shot = False\<rparr> \<and>
   mode_of (toggle_continuous (toggle_continuous FEMB0Diagnostics_init)) = Idle"
  using continuous_mode_toggles [of FEMB0Diagnostics_init] by simp


subsection \<open>The acquisition cycle\<close>

lemma np_frombuffer_cases:
  "(length buf mod k \<noteq> 0 \<and> np_frombuffer k buf = Inl ValueError) \<or>
   (length buf mod k = 0 \<and> (\<exists>xs. np_frombuffer k buf = Inr xs \<and> length xs = length buf div k))"
  by (simp add: np_frombuffer_def)

lemma decode_samples_bad:
  assumes "length buf \<noteq> 2 * (4 * 128 * n)"
  shows "bind_err (frombuffer_uint16 buf) (reshape3 4 128 n) = Inl ValueError"
  using np_frombuffer_cases [of buf 2] assms
  by (auto simp: bind_err_def frombuffer_uint16_def reshape3_def)

lemma decode_timestamps_bad:
  assumes "length buf \<noteq> 8 * (2 * n)"
  shows "bind_err (frombuffer_uint64 buf) (reshape2 2 n) = Inl ValueError"
  using np_frombuffer_cases [of buf 8] assms
  by (auto simp: bind_err_def frombuffer_uint64_def reshape2_def)

lemma shape3_reshape3: "reshape3 d0 d1 d2 a = Inr s \<Longrightarrow> shape3 s d0 d1 d2"
  by (auto simp: reshape3_def shape3_def list_all_iff split: if_splits)

lemma decode_samples_good:
  assumes "length buf = 2 * (4 * 128 * n)"
  shows "\<exists>s. bind_err (frombuffer_uint16 buf) (reshape3 4 128 n) = Inr s \<and> shape3 s 4 128 n"
proof -
  from np_frombuffer_cases [of buf 2] assms
  obtain xs where xs: "np_frombuffer 2 buf = Inr xs" "length xs = 4 * 128 * n" by auto
  then obtain s where s: "reshape3 4 128 n (map of_nat xs :: u16 list) = Inr s"
    by (simp add: reshape3_def)
  from shape3_reshape3 [OF s] s xs(1) show ?thesis
    by (simp add: bind_err_def frombuffer_uint16_def)
qed

lemma decode_timestamps_good:
  assumes "length buf = 8 * (2 * n)"
  shows "\<exists>ts. bind_err (frombuffer_uint64 buf) (reshape2 2 n) = Inr ts"
proof -
  from np_frombuffer_cases [of buf 8] assms
  obtain xs where xs: "np_frombuffer 8 buf = Inr xs" "length xs = 2 * n" by auto
  then show ?thesis
    by (simp add: bind_err_def frombuffer_uint64_def reshape2_def)
qed

text \<open>Claim C7. For every reply whose sample payload is not \<open>2 * (4 * 128 * N)\<close> bytes
  long, or whose timestamp payload is not \<open>8 * (2 * N)\<close> bytes long, \<open>N\<close> being the
  count the reply reports, \<^verbatim>\<open>acquire_data\<close> raises \<^verbatim>\<open>ValueError\<close> from the decoding,
  and the views are as before: none is loaded, none is redrawn.\<close>

theorem acquire_data_decode_failure:
  assumes "length (deframed_samples rep) \<noteq> 2 * (4 * 128 * num_samples rep) \<or>
           length (deframed_timestamps rep) \<noteq> 8 * (2 * num_samples rep)"
  shows "fst (acquire_data (Inr rep) w) = Raised ValueError \<and>
         views (snd (acquire_data (Inr rep) w)) = views w"
proof (cases "length (deframed_samples rep) = 2 * (4 * 128 * num_samples rep)")
  case False
  from decode_samples_bad [OF False] show ?thesis
    by (simp add: acquire_data_def Let_def send_command_def print_def)
next
  case True
  with assms have "length (deframed_timestamps rep) \<noteq> 8 * (2 * num_samples rep)" by simp
  from decode_timestamps_bad [OF this] decode_samples_good [OF True] show ?thesis
    by (auto simp: acquire_data_def Let_def send_command_def print_def)
qed


theorem acquire_data_decode_failure_witness:
  "length (deframed_timestamps \<lparr>success = True, num_samples = 1,
      deframed_samples = replicate 1024 0, deframed_timestamps = replicate 15 0\<rparr>)
     \<noteq> 8 * (2 * 1) \<and>
   fst (acquire_data (Inr \<lparr>success = True, num_samples = 1,
      deframed_samples = replicate 1024 0, deframed_timestamps = replicate 15 0\<rparr>)
      FEMB0Diagnostics_init) = Raised ValueError \<and>
   views (snd (acquire_data (Inr \<lparr>success = True, num_samples = 1,
      deframed_samples = replicate 1024 0, deframed_timestamps = replicate 15 0\<rparr>)
      FEMB0Diagnostics_init)) = views FEMB0Diagnostics_init"
  using acquire_data_decode_failure [of "\<lparr>success = True, num_samples = 1,
      deframed_samples = replicate 1024 0, deframed_timestamps = replicate 15 0\<rparr>"
      FEMB0Diagnostics_init]
  by simp

lemma load_data_Returned:
  assumes "shape3 s 4 128 N" "0 < N"
  shows "fst (load_data ts s v) = Returned"
  by (cases v)
     (simp_all add: Hist2DView_load_data_shape [OF assms(1)]
        MeanRMSView_load_data_shape(1) [OF assms(1)] FFTView_load_data_shape [OF assms])

lemma draws_load_data:
  assumes "shape3 s 4 128 N" "0 < N"
  shows "draws (snd (load_data ts s v)) = draws v"
  by (cases v)
     (simp_all add: Hist2DView_load_data_shape [OF assms(1)]
        MeanRMSView_load_data_shape(1) [OF assms(1)] FFTView_load_data_shape [OF assms])

lemma draws_plot_data: "draws (plot_data v) = draws v + 1"
  by (cases v)
     (simp_all add: Hist2DView_plot_data_def MeanRMSView_plot_data_def FFTView_plot_data_def)

lemma load_views_ok:
  assumes "\<forall>v\<in>set vs. fst (load_data ts s v) = Returned"
  shows "load_views ts s vs = (Returned, map (\<lambda>v. snd (load_data ts s v)) vs)"
  using assms
proof (induction vs)
  case Nil
  then show ?case by simp
next
  case (Cons v vs)
  obtain r v' where l: "load_data ts s v = (r, v')" by (cases "load_data ts s v")
  with Cons.prems have "r = Returned" by simp
  with l Cons show ?case by simp
qed

lemma acquire_data_ok:
  assumes "bind_err (frombuffer_uint16 (deframed_samples rep)) (reshape3 4 128 (num_samples rep)) = Inr s"
    and "bind_err (frombuffer_uint64 (deframed_timestamps rep)) (reshape2 2 (num_samples rep)) = Inr ts"
    and "shape3 s 4 128 (num_samples rep)" and "0 < num_samples rep"
  shows "fst (acquire_data (Inr rep) w) = Returned"
    and "samples (snd (acquire_data (Inr rep) w)) = Some s"
    and "timestamps (snd (acquire_data (Inr rep) w)) = Some ts"
    and "views (snd (acquire_data (Inr rep) w)) =
           map (\<lambda>v. plot_data (snd (load_data ts s v))) (views w)"
    and "stdout (snd (acquire_data (Inr rep) w)) =
           stdout w @ [ReadingOutSpyBuffer, Successful (success rep),
                       AcquiredSamples (num_samples rep)]"
proof -
  have "load_views ts s vs = (Returned, map (\<lambda>v. snd (load_data ts s v)) vs)" for vs
    by (rule load_views_ok) (simp add: load_data_Returned [OF assms(3,4)])
  then have *: "acquire_data (Inr rep) w =
     (Returned,
      plot (w\<lparr>stdout := stdout w @ [ReadingOutSpyBuffer],
              sent := sent w @ [ReqReadDaqSpy \<lparr>buf0 = True, buf1 = False, deframe = True,
                                               channels = True\<rparr>],
              stdout := stdout w @ [ReadingOutSpyBuffer, Successful (success rep)],
              stdout := stdout w @ [ReadingOutSpyBuffer, Successful (success rep),
                                    AcquiredSamples (num_samples rep)],
              samples := Some s, timestamps := Some ts,
              views := map (\<lambda>v. snd (load_data ts s v)) (views w)\<rparr>))"
    using assms(1,2) by (simp add: acquire_data_def Let_def send_command_def print_def)
  show "fst (acquire_data (Inr rep) w) = Returned"
    "samples (snd (acquire_data (Inr rep) w)) = Some s"
    "timestamps (snd (acquire_data (Inr rep) w)) = Some ts"
    "views (snd (acquire_data (Inr rep) w)) =
           map (\<lambda>v. plot_data (snd (load_data ts s v))) (views w)"
    "stdout (snd (acquire_data (Inr rep) w)) =
           stdout w @ [ReadingOutSpyBuffer, Successful (success rep),
                       AcquiredSamples (num_samples rep)]"
    unfolding * by (simp_all add: plot_def)
qed

text \<open>Claim C1, as the program has it. \<^verbatim>\<open>acquire_data\<close> prints the success flag of
  the reply and does not test it. For every reply with \<open>success = false\<close> whose payloads
  have the sizes that its count \<open>N \<ge> 1\<close> asks for, the cycle runs to its end: the decoded
  arrays are stored, every view is loaded from them and redrawn, and the console shows
  the flag.\<close>

theorem acquire_data_ignores_success:
  assumes "\<not> success rep"
    and "length (deframed_samples rep) = 2 * (4 * 128 * num_samples rep)"
    and "length (deframed_timestamps rep) = 8 * (2 * num_samples rep)"
    and "1 \<le> num_samples rep"
  shows "\<exists>s ts.
     bind_err (frombuffer_uint16 (deframed_samples rep)) (reshape3 4 128 (num_samples rep)) = Inr s \<and>
     bind_err (frombuffer_uint64 (deframed_timestamps rep)) (reshape2 2 (num_samples rep)) = Inr ts \<and>
     fst (acquire_data (Inr rep) w) = Returned \<and>
     samples (snd (acquire_data (Inr rep) w)) = Some s \<and>
     timestamps (snd (acquire_data (Inr rep) w)) = Some ts \<and>
     views (snd (acquire_data (Inr rep) w)) =
       map (\<lambda>v. plot_data (snd (load_data ts s v))) (views w) \<and>
     map draws (views (snd (acquire_data (Inr rep) w))) = map (\<lambda>v. draws v + 1) (views w) \<and>
     stdout (snd (acquire_data (Inr rep) w)) =
       stdout w @ [ReadingOutSpyBuffer, Successful False, AcquiredSamples (num_samples rep)]"
proof -
  from decode_samples_good [OF assms(2)] obtain s
    where s: "bind_err (frombuffer_uint16 (deframed_samples rep)) (reshape3 4 128 (num_samples rep)) = Inr s"
      "shape3 s 4 128 (num_samples rep)" by blast
  from decode_timestamps_good [OF assms(3)] obtain ts
    where ts: "bind_err (frombuffer_uint64 (deframed_timestamps rep)) (reshape2 2 (num_samples rep)) = Inr ts"
    by blast
  from assms(4) have N: "0 < num_samples rep" by simp
  note a = acquire_data_ok [OF s(1) ts s(2) N, of w]
  have d: "map draws (views (snd (acquire_data (Inr rep) w))) = map (\<lambda>v. draws v + 1) (views w)"
    unfolding a(4) by (simp add: draws_plot_data draws_load_data [OF s(2) N])
  have F: "bind_err (frombuffer_uint16 (deframed_samples rep)) (reshape3 4 128 (num_samples rep)) = Inr s \<and>
     bind_err (frombuffer_uint64 (deframed_timestamps rep)) (reshape2 2 (num_samples rep)) = Inr ts \<and>
     fst (acquire_data (Inr rep) w) = Returned \<and>
     samples (snd (acquire_data (Inr rep) w)) = Some s \<and>
     timestamps (snd (acquire_data (Inr rep) w)) = Some ts \<and>
     views (snd (acquire_data (Inr rep) w)) =
       map (\<lambda>v. plot_data (snd (load_data ts s v))) (views w) \<and>
     map draws (views (snd (acquire_data (Inr rep) w))) = map (\<lambda>v. draws v + 1) (views w) \<and>
     stdout (snd (acquire_data (Inr rep) w)) =
       stdout w @ [ReadingOutSpyBuffer, Successful False, AcquiredSamples (num_samples rep)]"
    using s(1) ts a d assms(1) by simp
  show ?thesis
    by (rule exI [where x = s], rule exI [where x = ts]) (rule F)
qed


lemma views_init:
  "views FEMB0Diagnostics_init =
     [VHist (Hist2DView_plot_data Hist2DView_init),
      VMeanRMS (MeanRMSView_plot_data MeanRMSView_init),
      VFFT (FFTView_plot_data FFTView_init)]"
  by (simp add: FEMB0Diagnostics_init_def plot_def)

lemma draws_init: "map draws (views FEMB0Diagnostics_init) = [2, 2, 2]"
  by (simp add: views_init Hist2DView_plot_data_def MeanRMSView_plot_data_def
      FFTView_plot_data_def Hist2DView_init_def MeanRMSView_init_def FFTView_init_def Let_def)

lemma draws_init_next: "map (\<lambda>v. draws v + 1) (views FEMB0Diagnostics_init) = [3, 3, 3]"
  by (simp add: views_init Hist2DView_plot_data_def MeanRMSView_plot_data_def
      FFTView_plot_data_def Hist2DView_init_def MeanRMSView_init_def FFTView_init_def Let_def)

lemma draws_after_cycle:
  assumes "shape3 s 4 128 N" "0 < N"
  shows "map draws (map (\<lambda>v. plot_data (snd (load_data ts s v))) vs) = map (\<lambda>v. draws v + 1) vs"
  by (simp add: draws_plot_data draws_load_data [OF assms])

lemma stored_init:
  "samples FEMB0Diagnostics_init = None" "timestamps FEMB0Diagnostics_init = None"
  "stdout FEMB0Diagnostics_init = []" "sent FEMB0Diagnostics_init = []"
  by (simp_all add: FEMB0Diagnostics_init_def plot_def)

theorem acquire_data_ignores_success_witness:
  "\<not> success \<lparr>success = False, num_samples = 1,
      deframed_samples = replicate 1024 1, deframed_timestamps = replicate 16 0\<rparr> \<and>
   fst (acquire_data (Inr \<lparr>success = False, num_samples = 1,
      deframed_samples = replicate 1024 1, deframed_timestamps = replicate 16 0\<rparr>) FEMB0Diagnostics_init) = Returned \<and>
   map draws (views (snd (acquire_data (Inr \<lparr>success = False, num_samples = 1,
      deframed_samples = replicate 1024 1, deframed_timestamps = replicate 16 0\<rparr>) FEMB0Diagnostics_init))) = [3, 3, 3] \<and>
   stdout (snd (acquire_data (Inr \<lparr>success = False, num_samples = 1,
      deframed_samples = replicate 1024 1, deframed_timestamps = replicate 16 0\<rparr>) FEMB0Diagnostics_init)) =
     [ReadingOutSpyBuffer, Successful False, AcquiredSamples 1]"
proof -
  let ?rep = "\<lparr>success = False, num_samples = 1,
      deframed_samples = replicate 1024 1, deframed_timestamps = replicate 16 0\<rparr>"
  let ?w = "snd (acquire_data (Inr ?rep) FEMB0Diagnostics_init)"
  have h: "\<not> success ?rep"
    "length (deframed_samples ?rep) = 2 * (4 * 128 * num_samples ?rep)"
    "length (deframed_timestamps ?rep) = 8 * (2 * num_samples ?rep)"
    "1 \<le> num_samples ?rep"
    by simp_all
  from acquire_data_ignores_success [OF h, of FEMB0Diagnostics_init]
  have "fst (acquire_data (Inr ?rep) FEMB0Diagnostics_init) = Returned \<and>
     map draws (views ?w) = map (\<lambda>v. draws v + 1) (views FEMB0Diagnostics_init) \<and>
     stdout ?w = stdout FEMB0Diagnostics_init @
        [ReadingOutSpyBuffer, Successful False, AcquiredSamples (num_samples ?rep)]"
    by blast
  then have "fst (acquire_data (Inr ?rep) FEMB0Diagnostics_init) = Returned"
    "map draws (views ?w) = [3, 3, 3]"
    "stdout ?w = [ReadingOutSpyBuffer, Successful False, AcquiredSamples 1]"
    by (simp_all only: draws_init_next stored_init append_Nil DeframedDaqSpy.select_convs)
  then show ?thesis by simp
qed

text \<open>A reply with \<open>success = false\<close> and well-sized payloads: the stored samples, the
  histogram counts and the canvases all change.\<close>

theorem acquire_data_failed_reply_shown:
  "success \<lparr>success = False, num_samples = 1,
      deframed_samples = replicate 1024 1, deframed_timestamps = replicate 16 0\<rparr> = False \<and>
   fst (acquire_data (Inr \<lparr>success = False, num_samples = 1,
      deframed_samples = replicate 1024 1, deframed_timestamps = replicate 16 0\<rparr>) FEMB0Diagnostics_init) = Returned \<and>
   samples (snd (acquire_data (Inr \<lparr>success = False, num_samples = 1,
      deframed_samples = replicate 1024 1, deframed_timestamps = replicate 16 0\<rparr>) FEMB0Diagnostics_init)) \<noteq> samples FEMB0Diagnostics_init \<and>
   (case hd (views FEMB0Diagnostics_init) of VHist h \<Rightarrow> length (counts h) | _ \<Rightarrow> 0) = 16385 \<and>
   (case hd (views (snd (acquire_data (Inr \<lparr>success = False, num_samples = 1,
      deframed_samples = replicate 1024 1, deframed_timestamps = replicate 16 0\<rparr>) FEMB0Diagnostics_init))) of
      VHist h \<Rightarrow> length (counts h) | _ \<Rightarrow> 0) = 128 \<and>
   map draws (views FEMB0Diagnostics_init) = [2, 2, 2] \<and>
   map draws (views (snd (acquire_data (Inr \<lparr>success = False, num_samples = 1,
      deframed_samples = replicate 1024 1, deframed_timestamps = replicate 16 0\<rparr>) FEMB0Diagnostics_init))) = [3, 3, 3]"
proof -
  let ?rep = "\<lparr>success = False, num_samples = 1,
      deframed_samples = replicate 1024 1, deframed_timestamps = replicate 16 0\<rparr>"
  have n: "num_samples ?rep = 1" by simp
  from decode_samples_good [of "deframed_samples ?rep" 1] obtain s
    where s: "bind_err (frombuffer_uint16 (deframed_samples ?rep)) (reshape3 4 128 (num_samples ?rep)) = Inr s"
      "shape3 s 4 128 (num_samples ?rep)" by auto
  from decode_timestamps_good [of "deframed_timestamps ?rep" 1] obtain ts
    where ts: "bind_err (frombuffer_uint64 (deframed_timestamps ?rep)) (reshape2 2 (num_samples ?rep)) = Inr ts"
    by auto
  have N: "0 < num_samples ?rep" by simp
  note a = acquire_data_ok [OF s(1) ts s(2) N, of FEMB0Diagnostics_init]
  have d: "map draws (views (snd (acquire_data (Inr ?rep) FEMB0Diagnostics_init))) = [3, 3, 3]"
    unfolding a(4) draws_after_cycle [OF s(2) N] by (rule draws_init_next)
  have c0: "(case hd (views FEMB0Diagnostics_init) of VHist h \<Rightarrow> length (counts h) | _ \<Rightarrow> 0) = 16385"
    by (simp add: views_init Hist2DView_plot_data_def Hist2DView_init_def)
  have c1: "(case hd (views (snd (acquire_data (Inr ?rep) FEMB0Diagnostics_init))) of
      VHist h \<Rightarrow> length (counts h) | _ \<Rightarrow> 0) = 128"
    unfolding a(4)
    by (simp add: views_init Hist2DView_load_data_shape [OF s(2)] Hist2DView_plot_data_def
        length_chan)
  from a(1,2) c0 c1 d draws_init show ?thesis
    by (simp add: stored_init)
qed

section \<open>Properties of the Configure action\<close>

lemma well_formed_fembE:
  assumes "well_formed_femb chk fc"
  obtains kvs v1 v2 v3 v4 v5 v6 v7 v8 v9 v10 v11 v12 where "fc = PDict kvs"
    "map_of kvs ''test_cap'' = Some v1" "chk ''test_cap'' v1 = None"
    "map_of kvs ''gain'' = Some v2" "chk ''gain'' v2 = None"
    "map_of kvs ''peak_time'' = Some v3" "chk ''peak_time'' v3 = None"
    "map_of kvs ''baseline'' = Some v4" "chk ''baseline'' v4 = None"
    "map_of kvs ''pulse_dac'' = Some v5" "chk ''pulse_dac'' v5 = None"
    "map_of kvs ''leak'' = Some v6" "chk ''leak'' v6 = None"
    "map_of kvs ''leak_10x'' = Some v7" "chk ''leak_10x'' v7 = None"
    "map_of kvs ''ac_couple'' = Some v8" "chk ''ac_couple'' v8 = None"
    "map_of kvs ''buffer'' = Some v9" "chk ''buffer'' v9 = None"
    "map_of kvs ''strobe_skip'' = Some v10" "chk ''strobe_skip'' v10 = None"
    "map_of kvs ''strobe_delay'' = Some v11" "chk ''strobe_delay'' v11 = None"
    "map_of kvs ''strobe_length'' = Some v12" "chk ''strobe_length'' v12 = None"
  using assms
  by (auto simp: well_formed_femb_def tuning_fields_def split: pyval.splits option.splits)

lemma case_PBoolD:
  "(case x of Some (PBool c) \<Rightarrow> P c | _ \<Rightarrow> False) \<Longrightarrow> \<exists>c. x = Some (PBool c) \<and> P c"
  by (cases x; cases "the x") auto

lemma case_PListD:
  "(case x of Some (PList l) \<Rightarrow> P l | _ \<Rightarrow> False) \<Longrightarrow> \<exists>l. x = Some (PList l) \<and> P l"
  by (cases x; cases "the x") auto

lemma well_formed_configE:
  assumes "well_formed_config chk config"
  obtains kvs c es fs where "config = PDict kvs"
    "map_of kvs ''cold'' = Some (PBool c)" "chk ''cold'' (PBool c) = None"
    "map_of kvs ''enabled_fembs'' = Some (PList es)" "length es = 4"
    "list_all (\<lambda>e. chk ''enabled'' e = None) es"
    "map_of kvs ''femb_configs'' = Some (PList fs)" "length fs = 4"
    "list_all (well_formed_femb chk) fs"
proof -
  from assms obtain kvs where k: "config = PDict kvs"
    by (cases config) (simp_all add: well_formed_config_def)
  with assms have
    a: "case map_of kvs ''cold'' of Some (PBool c) \<Rightarrow> chk ''cold'' (PBool c) = None | _ \<Rightarrow> False"
    and b: "case map_of kvs ''enabled_fembs'' of
              Some (PList es) \<Rightarrow> length es = 4 \<and> list_all (\<lambda>e. chk ''enabled'' e = None) es
            | _ \<Rightarrow> False"
    and c: "case map_of kvs ''femb_configs'' of
              Some (PList fs) \<Rightarrow> length fs = 4 \<and> list_all (well_formed_femb chk) fs
            | _ \<Rightarrow> False"
    by (simp_all add: well_formed_config_def)
  from case_PBoolD [OF a] case_PListD [OF b] case_PListD [OF c] k that show thesis
    by blast
qed

lemma femb_conf_eval:
  assumes "config = PDict kvs"
    and "map_of kvs ''enabled_fembs'' = Some (PList es)" "i < length es"
    and "chk ''enabled'' (es ! i) = None"
    and "map_of kvs ''femb_configs'' = Some (PList fs)" "i < length fs"
    and "fs ! i = PDict fkvs"
    and "map_of fkvs ''test_cap'' = Some v1" "chk ''test_cap'' v1 = None"
    and "map_of fkvs ''gain'' = Some v2" "chk ''gain'' v2 = None"
    and "map_of fkvs ''peak_time'' = Some v3" "chk ''peak_time'' v3 = None"
    and "map_of fkvs ''baseline'' = Some v4" "chk ''baseline'' v4 = None"
    and "map_of fkvs ''pulse_dac'' = Some v5" "chk ''pulse_dac'' v5 = None"
    and "map_of fkvs ''leak'' = Some v6" "chk ''leak'' v6 = None"
    and "map_of fkvs ''leak_10x'' = Some v7" "chk ''leak_10x'' v7 = None"
    and "map_of fkvs ''ac_couple'' = Some v8" "chk ''ac_couple'' v8 = None"
    and "map_of fkvs ''buffer'' = Some v9" "chk ''buffer'' v9 = None"
    and "map_of fkvs ''strobe_skip'' = Some v10" "chk ''strobe_skip'' v10 = None"
    and "map_of fkvs ''strobe_delay'' = Some v11" "chk ''strobe_delay'' v11 = None"
    and "map_of fkvs ''strobe_length'' = Some v12" "chk ''strobe_length'' v12 = None"
  shows "femb_conf chk config i =
           Inr \<lparr>enabled = es ! i, test_cap = v1, gain = v2, peak_time = v3, baseline = v4, pulse_dac = v5, leak = v6, leak_10x = v7, ac_couple = v8, buffer = v9, strobe_skip = v10, strobe_delay = v11, strobe_length = v12\<rparr>"
    and "config_enabled config i = Inr (es ! i)"
    and "config_femb_field config i ''test_cap'' = Inr v1"
    and "config_femb_field config i ''gain'' = Inr v2"
    and "config_femb_field config i ''peak_time'' = Inr v3"
    and "config_femb_field config i ''baseline'' = Inr v4"
    and "config_femb_field config i ''pulse_dac'' = Inr v5"
    and "config_femb_field config i ''leak'' = Inr v6"
    and "config_femb_field config i ''leak_10x'' = Inr v7"
    and "config_femb_field config i ''ac_couple'' = Inr v8"
    and "config_femb_field config i ''buffer'' = Inr v9"
    and "config_femb_field config i ''strobe_skip'' = Inr v10"
    and "config_femb_field config i ''strobe_delay'' = Inr v11"
    and "config_femb_field config i ''strobe_length'' = Inr v12"
  using assms
  by (simp_all add: femb_conf_def bind_err_def field_from_def set_field_def
      config_enabled_def config_femb_field_def)

lemma femb_conf_ok:
  assumes "well_formed_config chk config" "i < 4"
  obtains f where "femb_conf chk config i = Inr f"
    "config_enabled config i = Inr (enabled f)"
    "config_femb_field config i ''test_cap'' = Inr (test_cap f)"
    "config_femb_field config i ''gain'' = Inr (gain f)"
    "config_femb_field config i ''peak_time'' = Inr (peak_time f)"
    "config_femb_field config i ''baseline'' = Inr (baseline f)"
    "config_femb_field config i ''pulse_dac'' = Inr (pulse_dac f)"
    "config_femb_field config i ''leak'' = Inr (leak f)"
    "config_femb_field config i ''leak_10x'' = Inr (leak_10x f)"
    "config_femb_field config i ''ac_couple'' = Inr (ac_couple f)"
    "config_femb_field config i ''buffer'' = Inr (buffer f)"
    "config_femb_field config i ''strobe_skip'' = Inr (strobe_skip f)"
    "config_femb_field config i ''strobe_delay'' = Inr (strobe_delay f)"
    "config_femb_field config i ''strobe_length'' = Inr (strobe_length f)"
proof -
  from assms(1) obtain kvs c es fs where cfg: "config = PDict kvs"
    "map_of kvs ''enabled_fembs'' = Some (PList es)" "length es = 4"
    "list_all (\<lambda>e. chk ''enabled'' e = None) es"
    "map_of kvs ''femb_configs'' = Some (PList fs)" "length fs = 4"
    "list_all (well_formed_femb chk) fs"
    by (rule well_formed_configE)
  from cfg(3,6) assms(2) have i: "i < length es" "i < length fs" by simp_all
  from cfg(4) i(1) have en: "chk ''enabled'' (es ! i) = None" by (simp add: list_all_length)
  from cfg(7) i(2) have "well_formed_femb chk (fs ! i)" by (simp add: list_all_length)
  then obtain fkvs v1 v2 v3 v4 v5 v6 v7 v8 v9 v10 v11 v12 where w: "fs ! i = PDict fkvs"
    "map_of fkvs ''test_cap'' = Some v1" "chk ''test_cap'' v1 = None"
    "map_of fkvs ''gain'' = Some v2" "chk ''gain'' v2 = None"
    "map_of fkvs ''peak_time'' = Some v3" "chk ''peak_time'' v3 = None"
    "map_of fkvs ''baseline'' = Some v4" "chk ''baseline'' v4 = None"
    "map_of fkvs ''pulse_dac'' = Some v5" "chk ''pulse_dac'' v5 = None"
    "map_of fkvs ''leak'' = Some v6" "chk ''leak'' v6 = None"
    "map_of fkvs ''leak_10x'' = Some v7" "chk ''leak_10x'' v7 = None"
    "map_of fkvs ''ac_couple'' = Some v8" "chk ''ac_couple'' v8 = None"
    "map_of fkvs ''buffer'' = Some v9" "chk ''buffer'' v9 = None"
    "map_of fkvs ''strobe_skip'' = Some v10" "chk ''strobe_skip'' v10 = None"
    "map_of fkvs ''strobe_delay'' = Some v11" "chk ''strobe_delay'' v11 = None"
    "map_of fkvs ''strobe_length'' = Some v12" "chk ''strobe_length'' v12 = None"
    by (rule well_formed_fembE)
  note e = femb_conf_eval [OF cfg(1,2) i(1) en cfg(5) i(2) w]
  show thesis
    by (rule that [of "\<lparr>enabled = es ! i, test_cap = v1, gain = v2, peak_time = v3, baseline = v4, pulse_dac = v5, leak = v6, leak_10x = v7, ac_couple = v8, buffer = v9, strobe_skip = v10, strobe_delay = v11, strobe_length = v12\<rparr>"])
       (simp_all only: e ConfigureFEMB.select_convs)
qed

lemma add_fembs_ok:
  assumes "\<forall>i\<in>set is. \<exists>f. femb_conf chk config i = Inr f"
  shows "add_fembs chk config is req =
           Inr (req\<lparr>fembs := fembs req @ map (\<lambda>i. projr (femb_conf chk config i)) is\<rparr>)"
  using assms
proof (induction "is" arbitrary: req)
  case Nil
  then show ?case by simp
next
  case (Cons i "is")
  then obtain f where "femb_conf chk config i = Inr f" by auto
  with Cons show ?case by (simp add: bind_err_def)
qed

lemma sent_configure_wib:
  assumes "build_ConfigureWIB chk config = Inr req"
  shows "sent (snd (configure_wib chk (Inr config) answer w)) = sent w @ [ReqConfigureWIB req]"
  using assms
  by (cases answer) (simp_all add: configure_wib_def Let_def print_def send_command_def)

text \<open>Claim C8. For every well-formed configuration object, the Configure action builds
  one \<^verbatim>\<open>ConfigureWIB\<close> request and sends exactly that request, once: its \<^verbatim>\<open>cold\<close> is
  the object's \<^verbatim>\<open>cold\<close>, it has four records, and in record \<open>i\<close> the \<^verbatim>\<open>enabled\<close> flag
  is \<^verbatim>\<open>enabled_fembs[i]\<close> and every tuning field is the field of the same name of
  \<^verbatim>\<open>femb_configs[i]\<close>.\<close>

theorem configure_wib_request:
  assumes "well_formed_config chk config" and "i < 4"
  shows "\<exists>req. build_ConfigureWIB chk config = Inr req \<and>
      sent (snd (configure_wib chk (Inr config) answer w)) = sent w @ [ReqConfigureWIB req] \<and>
      getitem_str config ''cold'' = Inr (cold req) \<and>
      length (fembs req) = 4 \<and>
      config_enabled config i = Inr (enabled (fembs req ! i)) \<and>
      config_femb_field config i ''test_cap'' = Inr (test_cap (fembs req ! i)) \<and>
      config_femb_field config i ''gain'' = Inr (gain (fembs req ! i)) \<and>
      config_femb_field config i ''peak_time'' = Inr (peak_time (fembs req ! i)) \<and>
      config_femb_field config i ''baseline'' = Inr (baseline (fembs req ! i)) \<and>
      config_femb_field config i ''pulse_dac'' = Inr (pulse_dac (fembs req ! i)) \<and>
      config_femb_field config i ''leak'' = Inr (leak (fembs req ! i)) \<and>
      config_femb_field config i ''leak_10x'' = Inr (leak_10x (fembs req ! i)) \<and>
      config_femb_field config i ''ac_couple'' = Inr (ac_couple (fembs req ! i)) \<and>
      config_femb_field config i ''buffer'' = Inr (buffer (fembs req ! i)) \<and>
      config_femb_field config i ''strobe_skip'' = Inr (strobe_skip (fembs req ! i)) \<and>
      config_femb_field config i ''strobe_delay'' = Inr (strobe_delay (fembs req ! i)) \<and>
      config_femb_field config i ''strobe_length'' = Inr (strobe_length (fembs req ! i))"
proof -
  from assms(1) obtain kvs c where cfg: "config = PDict kvs"
    "map_of kvs ''cold'' = Some (PBool c)" "chk ''cold'' (PBool c) = None"
    by (rule well_formed_configE)
  let ?req = "\<lparr>cold = PBool c, fembs = map (\<lambda>j. projr (femb_conf chk config j)) [0..<4]\<rparr>"
  have all: "\<forall>j\<in>set [0..<4]. \<exists>f. femb_conf chk config j = Inr f"
  proof
    fix j assume "j \<in> set [0..<4]"
    then have "j < 4" by simp
    from femb_conf_ok [OF assms(1) this] show "\<exists>f. femb_conf chk config j = Inr f" by metis
  qed
  have a: "add_fembs chk config [0..<4] \<lparr>cold = PBool c, fembs = []\<rparr> = Inr ?req"
    using add_fembs_ok [OF all, of "\<lparr>cold = PBool c, fembs = []\<rparr>"] by simp
  have g: "getitem_str config ''cold'' = Inr (PBool c)" using cfg by simp
  have b: "build_ConfigureWIB chk config = Inr ?req"
    using cfg(3) a by (simp add: build_ConfigureWIB_def g bind_err_def set_field_def)
  from femb_conf_ok [OF assms] obtain f where f: "femb_conf chk config i = Inr f"
    "config_enabled config i = Inr (enabled f)"
    "config_femb_field config i ''test_cap'' = Inr (test_cap f)"
    "config_femb_field config i ''gain'' = Inr (gain f)"
    "config_femb_field config i ''peak_time'' = Inr (peak_time f)"
    "config_femb_field config i ''baseline'' = Inr (baseline f)"
    "config_femb_field config i ''pulse_dac'' = Inr (pulse_dac f)"
    "config_femb_field config i ''leak'' = Inr (leak f)"
    "config_femb_field config i ''leak_10x'' = Inr (leak_10x f)"
    "config_femb_field config i ''ac_couple'' = Inr (ac_couple f)"
    "config_femb_field config i ''buffer'' = Inr (buffer f)"
    "config_femb_field config i ''strobe_skip'' = Inr (strobe_skip f)"
    "config_femb_field config i ''strobe_delay'' = Inr (strobe_delay f)"
    "config_femb_field config i ''strobe_length'' = Inr (strobe_length f)"
    by metis
  from assms(2) f(1) have r: "fembs ?req ! i = f" by simp
  have c: "getitem_str config ''cold'' = Inr (cold ?req)" using g by simp
  have F: "build_ConfigureWIB chk config = Inr ?req \<and>
      sent (snd (configure_wib chk (Inr config) answer w)) = sent w @ [ReqConfigureWIB ?req] \<and>
      getitem_str config ''cold'' = Inr (cold ?req) \<and>
      length (fembs ?req) = 4 \<and>
      config_enabled config i = Inr (enabled (fembs ?req ! i)) \<and>
      config_femb_field config i ''test_cap'' = Inr (test_cap (fembs ?req ! i)) \<and>
      config_femb_field config i ''gain'' = Inr (gain (fembs ?req ! i)) \<and>
      config_femb_field config i ''peak_time'' = Inr (peak_time (fembs ?req ! i)) \<and>
      config_femb_field config i ''baseline'' = Inr (baseline (fembs ?req ! i)) \<and>
      config_femb_field config i ''pulse_dac'' = Inr (pulse_dac (fembs ?req ! i)) \<and>
      config_femb_field config i ''leak'' = Inr (leak (fembs ?req ! i)) \<and>
      config_femb_field config i ''leak_10x'' = Inr (leak_10x (fembs ?req ! i)) \<and>
      config_femb_field config i ''ac_couple'' = Inr (ac_couple (fembs ?req ! i)) \<and>
      config_femb_field config i ''buffer'' = Inr (buffer (fembs ?req ! i)) \<and>
      config_femb_field config i ''strobe_skip'' = Inr (strobe_skip (fembs ?req ! i)) \<and>
      config_femb_field config i ''strobe_delay'' = Inr (strobe_delay (fembs ?req ! i)) \<and>
      config_femb_field config i ''strobe_length'' = Inr (strobe_length (fembs ?req ! i))"
    unfolding r using b sent_configure_wib [OF b] c f by simp
  show ?thesis by (rule exI [where x = "?req"]) (rule F)
qed

theorem configure_wib_request_witness:
  "well_formed_config (\<lambda>name v. None) (PDict [(''cold'', PBool False),
            (''enabled_fembs'', PList [PBool True, PBool False, PBool False, PBool False]),
            (''femb_configs'', PList (replicate 4 (PDict
               [(''test_cap'', PBool False), (''gain'', PInt 2), (''peak_time'', PInt 3),
                (''baseline'', PInt 0), (''pulse_dac'', PInt 0), (''leak'', PInt 0),
                (''leak_10x'', PBool False), (''ac_couple'', PBool False), (''buffer'', PInt 0),
                (''strobe_skip'', PInt 255), (''strobe_delay'', PInt 255),
                (''strobe_length'', PInt 255)])))]) \<and>
   (\<exists>req. sent (snd (configure_wib (\<lambda>name v. None) (Inr (PDict [(''cold'', PBool False),
            (''enabled_fembs'', PList [PBool True, PBool False, PBool False, PBool False]),
            (''femb_configs'', PList (replicate 4 (PDict
               [(''test_cap'', PBool False), (''gain'', PInt 2), (''peak_time'', PInt 3),
                (''baseline'', PInt 0), (''pulse_dac'', PInt 0), (''leak'', PInt 0),
                (''leak_10x'', PBool False), (''ac_couple'', PBool False), (''buffer'', PInt 0),
                (''strobe_skip'', PInt 255), (''strobe_delay'', PInt 255),
                (''strobe_length'', PInt 255)])))]))
                      (Inr \<lparr>status_success = True\<rparr>) FEMB0Diagnostics_init)) =
             [ReqConfigureWIB req] \<and>
           cold req = PBool False \<and> length (fembs req) = 4 \<and>
           enabled (fembs req ! 0) = PBool True \<and> gain (fembs req ! 0) = PInt 2 \<and>
           strobe_delay (fembs req ! 0) = PInt 255)"
proof -
  let ?cfg = "PDict [(''cold'', PBool False),
            (''enabled_fembs'', PList [PBool True, PBool False, PBool False, PBool False]),
            (''femb_configs'', PList (replicate 4 (PDict
               [(''test_cap'', PBool False), (''gain'', PInt 2), (''peak_time'', PInt 3),
                (''baseline'', PInt 0), (''pulse_dac'', PInt 0), (''leak'', PInt 0),
                (''leak_10x'', PBool False), (''ac_couple'', PBool False), (''buffer'', PInt 0),
                (''strobe_skip'', PInt 255), (''strobe_delay'', PInt 255),
                (''strobe_length'', PInt 255)])))]"
  have wf: "well_formed_config (\<lambda>name v. None) ?cfg"
    by (simp add: well_formed_config_def well_formed_femb_def tuning_fields_def list_all_iff)
  have z: "(0::nat) < 4" by simp
  from configure_wib_request [OF wf z, of "Inr \<lparr>status_success = True\<rparr>" FEMB0Diagnostics_init]
  obtain req where r:
    "sent (snd (configure_wib (\<lambda>name v. None) (Inr ?cfg) (Inr \<lparr>status_success = True\<rparr>)
             FEMB0Diagnostics_init)) = sent FEMB0Diagnostics_init @ [ReqConfigureWIB req]"
    "getitem_str ?cfg ''cold'' = Inr (cold req)" "length (fembs req) = 4"
    "config_enabled ?cfg 0 = Inr (enabled (fembs req ! 0))"
    "config_femb_field ?cfg 0 ''gain'' = Inr (gain (fembs req ! 0))"
    "config_femb_field ?cfg 0 ''strobe_delay'' = Inr (strobe_delay (fembs req ! 0))"
    by blast
  from r(2) have "cold req = PBool False" by simp
  moreover from r(4) have "enabled (fembs req ! 0) = PBool True"
    by (simp add: config_enabled_def bind_err_def)
  moreover from r(5) have "gain (fembs req ! 0) = PInt 2"
    by (simp add: config_femb_field_def bind_err_def)
  moreover from r(6) have "strobe_delay (fembs req ! 0) = PInt 255"
    by (simp add: config_femb_field_def bind_err_def)
  ultimately show ?thesis using wf r(1,3) by (auto simp: stored_init)
qed

lemma configure_wib_not_built:
  assumes "build_ConfigureWIB chk config = Inl e"
  shows "configure_wib chk (Inr config) answer w =
           (Raised e, w\<lparr>stdout := stdout w @ [LoadingConfig, ConfiguringFEMBs]\<rparr>)"
  using assms by (simp add: configure_wib_def Let_def print_def)

lemma build_ConfigureWIB_empty: "build_ConfigureWIB chk (PDict []) = Inl KeyError"
  by (simp add: build_ConfigureWIB_def bind_err_def)

text \<open>Claim C9, as the program has it. When the configuration file is missing or does
  not parse, the Configure action reports the failure and returns, with nothing sent and
  nothing else of the window changed. When the file loads but no request can be built
  from it, as for a file lacking a required field, no command is sent and no view
  changes either.\<close>

theorem configure_wib_file_failure:
  "configure_wib chk (Inl e) answer w =
     (Returned, w\<lparr>stdout := stdout w @ [LoadingConfig, FailedToLoadConfig e]\<rparr>) \<and>
   (build_ConfigureWIB chk config = Inl e' \<longrightarrow>
      sent (snd (configure_wib chk (Inr config) answer w)) = sent w \<and>
      views (snd (configure_wib chk (Inr config) answer w)) = views w)"
  by (simp add: configure_wib_not_built) (simp add: configure_wib_def Let_def print_def)

theorem configure_wib_file_failure_witness:
  "build_ConfigureWIB (\<lambda>name v. None) (PDict []) = Inl KeyError \<and>
   fst (configure_wib (\<lambda>name v. None) (Inl FileNotFoundError) (Inr \<lparr>status_success = True\<rparr>)
          FEMB0Diagnostics_init) = Returned \<and>
   stdout (snd (configure_wib (\<lambda>name v. None) (Inl FileNotFoundError)
                  (Inr \<lparr>status_success = True\<rparr>) FEMB0Diagnostics_init)) =
     [LoadingConfig, FailedToLoadConfig FileNotFoundError] \<and>
   sent (snd (configure_wib (\<lambda>name v. None) (Inl FileNotFoundError)
                (Inr \<lparr>status_success = True\<rparr>) FEMB0Diagnostics_init)) = [] \<and>
   sent (snd (configure_wib (\<lambda>name v. None) (Inr (PDict []))
                (Inr \<lparr>status_success = True\<rparr>) FEMB0Diagnostics_init)) = []"
  using configure_wib_file_failure [of "\<lambda>name v. None" FileNotFoundError
      "Inr \<lparr>status_success = True\<rparr>" FEMB0Diagnostics_init "PDict []" KeyError]
  by (simp add: build_ConfigureWIB_empty stored_init)

text \<open>A configuration file holding the empty object: the action raises \<^verbatim>\<open>KeyError\<close>
  out of the slot, and the console shows no report of a failure.\<close>

theorem configure_wib_missing_field_raises:
  "fst (configure_wib (\<lambda>name v. None) (Inr (PDict [])) (Inr \<lparr>status_success = True\<rparr>)
          FEMB0Diagnostics_init) = Raised KeyError \<and>
   stdout (snd (configure_wib (\<lambda>name v. None) (Inr (PDict [])) (Inr \<lparr>status_success = True\<rparr>)
                  FEMB0Diagnostics_init)) = [LoadingConfig, ConfiguringFEMBs]"
  by (simp add: configure_wib_not_built [OF build_ConfigureWIB_empty] stored_init)

end
